theory Spec2Isabelle
  imports Complex_Main
begin

section \<open>Tile object renderer: stencil reference allocation\<close>

text \<open>
  \<^verbatim>\<open>TileObjectsRenderer.ts\<close>, class \<^verbatim>\<open>TileObjectRenderer\<close>. The two private fields
  \<^verbatim>\<open>m_renderOrderStencilValues\<close> (a \<^verbatim>\<open>Map<number, number>\<close>) and \<^verbatim>\<open>m_stencilValue\<close> are
  the state; every method takes the state and returns the new one. Render orders are
  JavaScript numbers, modelled as reals; stencil values only ever arise from the counter, so
  they are integers.
\<close>

definition DEFAULT_STENCIL_VALUE :: int where
  "DEFAULT_STENCIL_VALUE = 1"

record stencil_state =
  m_renderOrderStencilValues :: "real \<rightharpoonup> int"
  m_stencilValue :: int

definition prepareRender :: "stencil_state \<Rightarrow> stencil_state" where
  "prepareRender s =
     s\<lparr>m_stencilValue := DEFAULT_STENCIL_VALUE, m_renderOrderStencilValues := Map.empty\<rparr>"

text \<open>\<^verbatim>\<open>const stencilValue = this.m_stencilValue++\<close>: the old value is stored and returned.\<close>

definition allocateStencilValue :: "real \<Rightarrow> stencil_state \<Rightarrow> int \<times> stencil_state" where
  "allocateStencilValue renderOrder s =
     (let stencilValue = m_stencilValue s;
          s1 = s\<lparr>m_stencilValue := m_stencilValue s + 1\<rparr>;
          s2 = s1\<lparr>m_renderOrderStencilValues :=
                    (m_renderOrderStencilValues s1)(renderOrder \<mapsto> stencilValue)\<rparr>
      in (stencilValue, s2))"

text \<open>\<^verbatim>\<open>this.m_renderOrderStencilValues.get(renderOrder) ?? this.allocateStencilValue(renderOrder)\<close>\<close>

definition getStencilValue :: "real \<Rightarrow> stencil_state \<Rightarrow> int \<times> stencil_state" where
  "getStencilValue renderOrder s =
     (case m_renderOrderStencilValues s renderOrder of
        Some v \<Rightarrow> (v, s)
      | None \<Rightarrow> allocateStencilValue renderOrder s)"

text \<open>
  One frame: the successive calls of \<^verbatim>\<open>getStencilValue\<close> that \<^verbatim>\<open>updateStencilRef\<close> makes
  between two calls of \<^verbatim>\<open>prepareRender\<close>, with the values they return, in call order.
\<close>

fun getStencilValues :: "real list \<Rightarrow> stencil_state \<Rightarrow> int list \<times> stencil_state" where
  "getStencilValues [] s = ([], s)"
| "getStencilValues (r # rs) s =
     (let (v, s1) = getStencilValue r s;
          (vs, s2) = getStencilValues rs s1
      in (v # vs, s2))"

text \<open>The distinct elements of a list in order of first occurrence, and the position of
  an element in a list.\<close>

fun firstOccurrences :: "'a list \<Rightarrow> 'a list" where
  "firstOccurrences [] = []"
| "firstOccurrences (x # xs) = x # filter (\<lambda>y. y \<noteq> x) (firstOccurrences xs)"

definition positionIn :: "'a list \<Rightarrow> 'a \<Rightarrow> nat" where
  "positionIn xs x = length (takeWhile (\<lambda>y. y \<noteq> x) xs)"


section \<open>JavaScript exceptions\<close>

text \<open>What a JavaScript function of the model can throw: a \<^verbatim>\<open>TypeError\<close> of the runtime
  (a property read from \<^verbatim>\<open>undefined\<close>), a failed \<^verbatim>\<open>assert\<close>, or an \<^verbatim>\<open>Error\<close> thrown by the
  code with its message.\<close>

datatype js_error = TypeError | AssertionError | Error string

section \<open>JavaScript numbers\<close>

text \<open>
  A number of the language is a binary64 value: a finite one, held as the real number it
  denotes, an infinity, or \<^verbatim>\<open>NaN\<close>. The two zeros are one, \<open>Finite 0\<close>; they differ only as
  divisors. An operation on finite numbers rounds its exact result, and the rounding, which
  is the language's and not the repository's, is a parameter \<open>rnd\<close> of each operation: it
  gives the binary64 value nearest to a real number, an infinity beyond the largest one.
  The operations follow ECMAScript's \<^verbatim>\<open>Number::add\<close>, \<^verbatim>\<open>Number::subtract\<close>,
  \<^verbatim>\<open>Number::multiply\<close>, \<^verbatim>\<open>Number::divide\<close>, the comparison \<^verbatim>\<open>>=\<close> and \<^verbatim>\<open>Math.max\<close>.
\<close>

datatype number = Finite real | PlusInfinity | MinusInfinity | NaN

definition signOf :: "number \<Rightarrow> real" where
  "signOf a =
     (case a of Finite x \<Rightarrow> sgn x | PlusInfinity \<Rightarrow> 1 | MinusInfinity \<Rightarrow> - 1 | NaN \<Rightarrow> 0)"

definition infinityOf :: "real \<Rightarrow> number" where
  "infinityOf s = (if 0 < s then PlusInfinity else MinusInfinity)"

definition numNeg :: "number \<Rightarrow> number" where
  "numNeg a =
     (case a of
        Finite x \<Rightarrow> Finite (- x)
      | PlusInfinity \<Rightarrow> MinusInfinity
      | MinusInfinity \<Rightarrow> PlusInfinity
      | NaN \<Rightarrow> NaN)"

definition numAdd :: "(real \<Rightarrow> number) \<Rightarrow> number \<Rightarrow> number \<Rightarrow> number" where
  "numAdd rnd a b =
     (case (a, b) of
        (Finite x, Finite y) \<Rightarrow> rnd (x + y)
      | (Finite x, _) \<Rightarrow> b
      | (_, Finite y) \<Rightarrow> a
      | _ \<Rightarrow> if a = b then a else NaN)"

definition numSub :: "(real \<Rightarrow> number) \<Rightarrow> number \<Rightarrow> number \<Rightarrow> number" where
  "numSub rnd a b = numAdd rnd a (numNeg b)"

definition numMul :: "(real \<Rightarrow> number) \<Rightarrow> number \<Rightarrow> number \<Rightarrow> number" where
  "numMul rnd a b =
     (case (a, b) of
        (Finite x, Finite y) \<Rightarrow> rnd (x * y)
      | _ \<Rightarrow>
          if a = NaN \<or> b = NaN \<or> signOf a * signOf b = 0 then NaN
          else infinityOf (signOf a * signOf b))"

text \<open>A finite number divided by zero is an infinity of the sign of the dividend, the
  zero being the positive one, or \<^verbatim>\<open>NaN\<close> for zero by zero.\<close>

definition numDiv :: "(real \<Rightarrow> number) \<Rightarrow> number \<Rightarrow> number \<Rightarrow> number" where
  "numDiv rnd a b =
     (case (a, b) of
        (Finite x, Finite y) \<Rightarrow>
          if y = 0 then (if x = 0 then NaN else infinityOf x) else rnd (x / y)
      | (Finite x, _) \<Rightarrow> if b = NaN then NaN else Finite 0
      | (_, Finite y) \<Rightarrow>
          if a = NaN then NaN else infinityOf (signOf a * (if y < 0 then - 1 else 1))
      | _ \<Rightarrow> NaN)"

text \<open>\<^verbatim>\<open>a >= b\<close> is false when an operand is \<^verbatim>\<open>NaN\<close>.\<close>

definition numGe :: "number \<Rightarrow> number \<Rightarrow> bool" where
  "numGe a b =
     (case (a, b) of
        (Finite x, Finite y) \<Rightarrow> x \<ge> y
      | _ \<Rightarrow> a \<noteq> NaN \<and> b \<noteq> NaN \<and> (a = PlusInfinity \<or> b = MinusInfinity))"

definition numMax :: "number \<Rightarrow> number \<Rightarrow> number" where
  "numMax a b = (if a = NaN \<or> b = NaN then NaN else if numGe a b then a else b)"

text \<open>
  The rounding of binary64, to the nearest value and on a tie to the one with an even
  significand: 53 bits of significand, exponents from \<open>-1022\<close>, below which the spacing of
  the values stays \<open>2 ^ -1074\<close>, to 1023, beyond which the result is an infinity.
  \<open>bitLength n\<close> is the number of binary digits of \<open>n\<close> and \<open>exponentOf a\<close>, for a positive
  \<open>a\<close>, the exponent \<open>e\<close> with \<open>2 ^ e \<le> a < 2 ^ (e + 1)\<close>.
\<close>

function bitLength :: "int \<Rightarrow> int" where
  "bitLength n = (if n \<le> 0 then 0 else bitLength (n div 2) + 1)"
  by pat_completeness auto
termination
  by (relation "measure nat") auto

declare bitLength.simps [simp del]

definition exponentOf :: "real \<Rightarrow> int" where
  "exponentOf a =
     (if a \<ge> 1 then bitLength \<lfloor>a\<rfloor> - 1 else - bitLength (\<lceil>1 / a\<rceil> - 1))"

definition powerOfTwo :: "int \<Rightarrow> real" where
  "powerOfTwo e = (if e \<ge> 0 then 2 ^ nat e else 1 / 2 ^ nat (- e))"

definition binary64 :: "real \<Rightarrow> number" where
  "binary64 x =
     (if x = 0 then Finite 0
      else
        (let a = \<bar>x\<bar>;
             e = max (exponentOf a) (- 1022);
             ulp = powerOfTwo (e - 52);
             q = a / ulp;
             n = \<lfloor>q\<rfloor>;
             m = (if q - of_int n < 1 / 2 then n
                  else if q - of_int n > 1 / 2 then n + 1
                  else if even n then n else n + 1);
             r = of_int m * ulp
         in if r \<ge> 2 ^ 1024 then (if x > 0 then PlusInfinity else MinusInfinity)
            else Finite (if x > 0 then r else - r)))"

section \<open>Decoded-tile emitter: data model\<close>

text \<open>
  \<^verbatim>\<open>OmvDecodedTileEmitter.ts\<close>. Values of the feature environment (\<^verbatim>\<open>Value\<close> of the
  datasource protocol) and the entries of a \<^verbatim>\<open>MapEnv\<close>, which the emitter stores as
  \<^verbatim>\<open>objInfos\<close>.
\<close>

datatype Value = Num real | Str string | Bool bool | Null

type_synonym ValueMap = "(string \<times> Value) list"

text \<open>
  \<^verbatim>\<open>GeometryType\<close> is declared in the datasource protocol; these are the members the emitter
  uses.
\<close>

datatype GeometryType = Point | Line | SolidLine | Polygon | ExtrudedLine | ExtrudedPolygon

record Group =
  g_start :: real
  g_count :: real
  g_technique :: nat
  g_featureId :: "int option"
  g_renderOrderOffset :: "real option"

text \<open>
  Class \<^verbatim>\<open>MeshBuffers\<close>: the per-technique accumulator. Every array starts empty; \<^verbatim>\<open>type\<close>
  is the constructor's read-only parameter. Position, normal, colour and coordinate arrays
  hold JavaScript numbers; \<^verbatim>\<open>texts\<close> and \<^verbatim>\<open>imageTextures\<close> hold catalog indices or
  \<^verbatim>\<open>INVALID_ARRAY_INDEX\<close>.
\<close>

record MeshBuffers =
  mb_positions :: "real list"
  mb_normals :: "real list"
  mb_textureCoordinates :: "real list"
  mb_colors :: "real list"
  mb_extrusionAxis :: "real list"
  mb_indices :: "nat list"
  mb_edgeIndices :: "nat list"
  mb_groups :: "Group list"
  mb_texts :: "int list"
  mb_pathLengths :: "real list"
  mb_stringCatalog :: "string option list"
  mb_imageTextures :: "int list"
  mb_featureIds :: "int option list"
  mb_featureStarts :: "nat list"
  mb_objInfos :: "ValueMap option list"
  mb_type :: GeometryType

definition newMeshBuffers :: "GeometryType \<Rightarrow> MeshBuffers" where
  "newMeshBuffers ty =
     \<lparr>mb_positions = [], mb_normals = [], mb_textureCoordinates = [], mb_colors = [],
      mb_extrusionAxis = [], mb_indices = [], mb_edgeIndices = [], mb_groups = [],
      mb_texts = [], mb_pathLengths = [], mb_stringCatalog = [], mb_imageTextures = [],
      mb_featureIds = [], mb_featureStarts = [], mb_objInfos = [], mb_type = ty\<rparr>"

definition INVALID_ARRAY_INDEX :: int where
  "INVALID_ARRAY_INDEX = - 1"

section \<open>Decoded-tile emitter: mesh buffers per technique index\<close>

text \<open>
  \<^verbatim>\<open>m_meshBuffers\<close> is a JavaScript \<^verbatim>\<open>Map<number, MeshBuffers>\<close>. A \<^verbatim>\<open>Map\<close> iterates in
  insertion order and \<^verbatim>\<open>createGeometries\<close> depends on that order, so the map is an
  association list with distinct keys: \<^verbatim>\<open>get\<close> is \<open>map_of\<close> and \<^verbatim>\<open>set\<close> of a key that is
  absent appends. \<^verbatim>\<open>logger.error\<close> is the only other effect of
  \<^verbatim>\<open>findOrCreateMeshBuffers\<close>; the messages logged are returned with the result.

  A \<^verbatim>\<open>MeshBuffers\<close> object is handed out by reference: the caller's later pushes go to the
  stored object. In the model the caller gets the stored value and writes the changed value
  back under the same index; \<^verbatim>\<open>type\<close> is \<^verbatim>\<open>readonly\<close>, so no caller changes it.
\<close>

type_synonym meshBufferMap = "(nat \<times> MeshBuffers) list"

definition wrongTypeMessage :: "GeometryType \<Rightarrow> GeometryType \<Rightarrow> string" where
  "wrongTypeMessage requested stored = ''MeshBuffer has been created with wrong type''"

definition findOrCreateMeshBuffers ::
  "nat \<Rightarrow> GeometryType \<Rightarrow> meshBufferMap \<Rightarrow> MeshBuffers option \<times> meshBufferMap \<times> string list" where
  "findOrCreateMeshBuffers index ty m =
     (case map_of m index of
        Some buffers \<Rightarrow>
          if mb_type buffers \<noteq> ty then (None, m, [wrongTypeMessage ty (mb_type buffers)])
          else (Some buffers, m, [])
      | None \<Rightarrow>
          (let buffers = newMeshBuffers ty
           in (Some buffers, m @ [(index, buffers)], [])))"

text \<open>
  A decode session as far as the mesh-buffer map is concerned: a sequence of
  \<^verbatim>\<open>findOrCreateMeshBuffers\<close> calls, each followed by the caller's changes to the buffer it
  got (any function of the buffer; the read-only \<^verbatim>\<open>type\<close> is kept).
\<close>

fun writeBack :: "nat \<Rightarrow> MeshBuffers \<Rightarrow> meshBufferMap \<Rightarrow> meshBufferMap" where
  "writeBack index b [] = []"
| "writeBack index b ((k, v) # m) =
     (if k = index then (k, b) # m else (k, v) # writeBack index b m)"

fun meshBufferSession ::
  "(nat \<times> GeometryType \<times> (MeshBuffers \<Rightarrow> MeshBuffers)) list \<Rightarrow> meshBufferMap \<Rightarrow> meshBufferMap" where
  "meshBufferSession [] m = m"
| "meshBufferSession ((index, ty, change) # calls) m =
     (case findOrCreateMeshBuffers index ty m of
        (None, m1, _) \<Rightarrow> meshBufferSession calls m1
      | (Some buffers, m1, _) \<Rightarrow>
          meshBufferSession calls
            (writeBack index ((change buffers)\<lparr>mb_type := mb_type buffers\<rparr>) m1))"

text \<open>The geometry type a session fixes for an index: that of the stored buffer if there
  is one, else that of the first call for the index.\<close>

fun firstRequestedType ::
  "nat \<Rightarrow> (nat \<times> GeometryType \<times> (MeshBuffers \<Rightarrow> MeshBuffers)) list \<Rightarrow> GeometryType option" where
  "firstRequestedType index [] = None"
| "firstRequestedType index ((k, ty, change) # calls) =
     (if k = index then Some ty else firstRequestedType index calls)"

definition storedType :: "meshBufferMap \<Rightarrow> nat \<Rightarrow> GeometryType option" where
  "storedType m index = map_option mb_type (map_of m index)"

section \<open>Decoded-tile emitter: state and output\<close>

text \<open>
  A technique of the style set evaluator's catalog, as far as the emitter reads it. The type
  guards \<^verbatim>\<open>isTextTechnique\<close>, \<^verbatim>\<open>isPoiTechnique\<close>, \<^verbatim>\<open>isLineMarkerTechnique\<close>,
  \<^verbatim>\<open>isExtrudedLineTechnique\<close>, \<^verbatim>\<open>isFillTechnique\<close>, \<^verbatim>\<open>isExtrudedPolygonTechnique\<close> are
  declared in the datasource protocol, outside \<^verbatim>\<open>src\<close>; each tests the technique's
  \<^verbatim>\<open>name\<close>, as \<^verbatim>\<open>processLineFeature\<close> itself does for the line techniques.
\<close>

record Technique =
  t_name :: string
  t_index :: nat
  t_label :: "string option"
  t_useAbbreviation :: bool
  t_useIsoCode :: bool
  t_imageTexture :: "string option"
  t_imageTextureField :: "string option"
  t_imageTexturePrefix :: "string option"
  t_imageTexturePostfix :: "string option"
  t_lineWidth :: "nat \<Rightarrow> real option"
  t_caps :: "string option"
  t_boundaryWalls :: "bool option"

definition isTextTechnique :: "Technique \<Rightarrow> bool" where
  "isTextTechnique t \<longleftrightarrow> t_name t = ''text''"

definition isPoiTechnique :: "Technique \<Rightarrow> bool" where
  "isPoiTechnique t \<longleftrightarrow> t_name t = ''labeled-icon''"

definition isLineMarkerTechnique :: "Technique \<Rightarrow> bool" where
  "isLineMarkerTechnique t \<longleftrightarrow> t_name t = ''line-marker''"

definition isExtrudedLineTechnique :: "Technique \<Rightarrow> bool" where
  "isExtrudedLineTechnique t \<longleftrightarrow> t_name t = ''extruded-line''"

definition isFillTechnique :: "Technique \<Rightarrow> bool" where
  "isFillTechnique t \<longleftrightarrow> t_name t = ''fill''"

definition isSolidLineTechnique :: "Technique \<Rightarrow> bool" where
  "isSolidLineTechnique t \<longleftrightarrow> t_name t = ''solid-line''"

definition isDashedLineTechnique :: "Technique \<Rightarrow> bool" where
  "isDashedLineTechnique t \<longleftrightarrow> t_name t = ''dashed-line''"

definition isExtrudedPolygonTechnique :: "Technique \<Rightarrow> bool" where
  "isExtrudedPolygonTechnique t \<longleftrightarrow> t_name t = ''extruded-polygon''"

text \<open>
  The wire format. A typed array built from a list of numbers is held as that list;
  \<^verbatim>\<open>Float32Array\<close> and \<^verbatim>\<open>Uint32Array\<close> buffers are kept apart.
\<close>

datatype Buffer = Floats "real list" | Uints "nat list"

record BufferAttribute =
  ba_name :: string
  ba_buffer :: Buffer
  ba_itemCount :: nat
  ba_type :: string

record InterleavedBufferAttribute =
  iba_type :: string
  iba_stride :: nat
  iba_buffer :: Buffer

record Geometry =
  geo_type :: GeometryType
  geo_vertexAttributes :: "BufferAttribute list"
  geo_interleavedVertexAttributes :: "InterleavedBufferAttribute list option"
  geo_groups :: "Group list"
  geo_index :: "BufferAttribute option"
  geo_edgeIndex :: "BufferAttribute option"
  geo_featureIds :: "int option list option"
  geo_featureStarts :: "nat list option"
  geo_objInfos :: "ValueMap option list option"

record TextGeometry =
  tg_positions :: BufferAttribute
  tg_texts :: "int list"
  tg_technique :: nat
  tg_featureId :: "int option"
  tg_stringCatalog :: "string option list"
  tg_objInfos :: "ValueMap option list option"

record PoiGeometry =
  pg_positions :: BufferAttribute
  pg_texts :: "int list"
  pg_technique :: nat
  pg_featureId :: "int option"
  pg_stringCatalog :: "string option list"
  pg_imageTextures :: "int list"
  pg_objInfos :: "ValueMap option list option"

record TextPathGeometry =
  tp_technique :: nat
  tp_path :: "real list"
  tp_pathLengthSqr :: real
  tp_text :: string
  tp_featureId :: "int option"
  tp_objInfos :: "ValueMap option"

text \<open>
  \<^verbatim>\<open>LinesGeometry\<close> with the vertices, indices and stride of its \<^verbatim>\<open>LineGroup\<close> (the line
  triangulation itself is in another package).
\<close>

record LinesGeometry =
  ln_type :: GeometryType
  ln_technique :: nat
  ln_renderOrderOffset :: "real option"
  ln_vertices :: "real list"
  ln_indices :: "nat list"
  ln_stride :: nat
  ln_featureIds :: "int option list option"
  ln_featureStarts :: "nat list option"

text \<open>
  The emitter: its constructor parameters (read-only) and the technique catalog of its style
  set evaluator, then its mutable fields. \<^verbatim>\<open>logged\<close> collects what goes to the logger.
  \<^verbatim>\<open>assertActive\<close> says whether \<^verbatim>\<open>assert\<close> of the utilities package, which is outside
  \<^verbatim>\<open>src\<close>, throws on a false condition.
\<close>

record EmitterConfig =
  m_gatherFeatureIds :: bool
  m_skipShortLabels :: bool
  m_enableElevationOverlay :: bool
  cfg_techniques :: "Technique option list option"
  cfg_tileKey_level :: nat
  cfg_tileSizeOnScreen :: real
  cfg_projectedTileBounds_min :: "real \<times> real"
  cfg_projectedTileBounds_max :: "real \<times> real"
  cfg_assertActive :: bool

record Emitter =
  m_meshBuffers :: meshBufferMap
  m_geometries :: "Geometry list"
  m_textGeometries :: "TextGeometry list"
  m_textPathGeometries :: "TextPathGeometry list"
  m_poiGeometries :: "PoiGeometry list"
  m_simpleLines :: "LinesGeometry list"
  m_solidLines :: "LinesGeometry list"
  m_dashedLines :: "LinesGeometry list"
  m_sources :: "string list"
  logged :: "string list"

record DecodedTile =
  dec_techniques :: "Technique option list option"
  dec_geometries :: "Geometry list"
  dec_textGeometries :: "TextGeometry list option"
  dec_poiGeometries :: "PoiGeometry list option"
  dec_textPathGeometries :: "TextPathGeometry list option"
  dec_copyrightHolderIds :: "string list option"

section \<open>Decoded-tile emitter: final geometry creation\<close>

definition positionAttribute :: "real list \<Rightarrow> BufferAttribute" where
  "positionAttribute positionElements =
     \<lparr>ba_name = ''position'', ba_buffer = Floats positionElements, ba_itemCount = 3,
      ba_type = ''float''\<rparr>"

text \<open>\<^verbatim>\<open>xs[0]\<close> of an array whose entries may themselves be \<^verbatim>\<open>undefined\<close>.\<close>

definition firstFeatureId :: "int option list \<Rightarrow> int option" where
  "firstFeatureId ids = (case ids of [] \<Rightarrow> None | x # _ \<Rightarrow> x)"

text \<open>
  One of the blocks \<^verbatim>\<open>if (xs.length > 0) { assert(cond, msg); geometry.vertexAttributes.push(...) }\<close>.
\<close>

definition pushAttribute ::
  "bool \<Rightarrow> real list \<Rightarrow> bool \<Rightarrow> string \<Rightarrow> nat \<Rightarrow> Geometry \<Rightarrow> js_error + Geometry" where
  "pushAttribute active xs cond name itemCount geo =
     (if length xs > 0
      then if active \<and> \<not> cond then Inl AssertionError
           else Inr (geo\<lparr>geo_vertexAttributes := geo_vertexAttributes geo @
                      [\<lparr>ba_name = name, ba_buffer = Floats xs, ba_itemCount = itemCount,
                        ba_type = ''float''\<rparr>]\<rparr>)
      else Inr geo)"

text \<open>Sequencing of steps that may throw: the first exception ends the sequence.\<close>

definition thenDo :: "js_error + 'a \<Rightarrow> ('a \<Rightarrow> js_error + 'b) \<Rightarrow> js_error + 'b" where
  "thenDo r f = (case r of Inl err \<Rightarrow> Inl err | Inr x \<Rightarrow> f x)"

text \<open>
  The callback of \<^verbatim>\<open>this.m_meshBuffers.forEach((meshBuffers, techniqueIdx) => ...)\<close>, in
  three parts: the text geometry, the POI geometry, and the mesh geometry with its
  attributes (from \<^verbatim>\<open>const geometry: Geometry = ...\<close> on).
\<close>

definition textGeometryOf :: "EmitterConfig \<Rightarrow> nat \<Rightarrow> MeshBuffers \<Rightarrow> TextGeometry" where
  "textGeometryOf cfg techniqueIdx meshBuffers =
     \<lparr>tg_positions = positionAttribute (mb_positions meshBuffers),
      tg_texts = mb_texts meshBuffers,
      tg_technique = techniqueIdx,
      tg_featureId = firstFeatureId (mb_featureIds meshBuffers),
      tg_stringCatalog = mb_stringCatalog meshBuffers,
      tg_objInfos = (if m_gatherFeatureIds cfg then Some (mb_objInfos meshBuffers) else None)\<rparr>"

definition poiGeometryOf :: "nat \<Rightarrow> MeshBuffers \<Rightarrow> PoiGeometry" where
  "poiGeometryOf techniqueIdx meshBuffers =
     \<lparr>pg_positions = positionAttribute (mb_positions meshBuffers),
      pg_texts = mb_texts meshBuffers,
      pg_technique = techniqueIdx,
      pg_featureId = firstFeatureId (mb_featureIds meshBuffers),
      pg_stringCatalog = mb_stringCatalog meshBuffers,
      pg_imageTextures = mb_imageTextures meshBuffers,
      pg_objInfos = Some (mb_objInfos meshBuffers)\<rparr>"

definition meshGeometryOf :: "EmitterConfig \<Rightarrow> MeshBuffers \<Rightarrow> js_error + Geometry" where
  "meshGeometryOf cfg buffers =
     (let positionElements = mb_positions buffers;
          geometry0 =
            \<lparr>geo_type = mb_type buffers,
             geo_vertexAttributes = [positionAttribute positionElements],
             geo_interleavedVertexAttributes = None,
             geo_groups = mb_groups buffers, geo_index = None, geo_edgeIndex = None,
             geo_featureIds = None, geo_featureStarts = None, geo_objInfos = None\<rparr>
      in
      thenDo (pushAttribute (cfg_assertActive cfg) (mb_normals buffers)
                (length (mb_normals buffers) = length positionElements)
                ''normal'' 3 geometry0) (\<lambda>geometry1.
      thenDo (pushAttribute (cfg_assertActive cfg) (mb_colors buffers)
                (length (mb_colors buffers) = length positionElements)
                ''color'' 3 geometry1) (\<lambda>geometry2.
      thenDo (pushAttribute (cfg_assertActive cfg) (mb_textureCoordinates buffers)
                (real (length (mb_textureCoordinates buffers)) / 2 =
                 real (length (mb_positions buffers)) / 3)
                ''uv'' 2 geometry2) (\<lambda>geometry3.
      thenDo (pushAttribute (cfg_assertActive cfg) (mb_extrusionAxis buffers)
                (length (mb_extrusionAxis buffers) = length positionElements)
                ''extrusionAxis'' 3 geometry3) (\<lambda>geometry4.
      (let geometry5 =
             (if length (mb_indices buffers) > 0
              then geometry4\<lparr>geo_index := Some
                     \<lparr>ba_name = ''index'', ba_buffer = Uints (mb_indices buffers),
                      ba_itemCount = 1, ba_type = ''uint32''\<rparr>\<rparr>
              else geometry4);
           geometry6 =
             (if length (mb_edgeIndices buffers) > 0
              then geometry5\<lparr>geo_edgeIndex := Some
                     \<lparr>ba_name = ''edgeIndex'', ba_buffer = Uints (mb_edgeIndices buffers),
                      ba_itemCount = 1, ba_type = ''uint32''\<rparr>\<rparr>
              else geometry5);
           geometry7 =
             (if m_gatherFeatureIds cfg
              then geometry6\<lparr>geo_featureIds := Some (mb_featureIds buffers),
                             geo_featureStarts := Some (mb_featureStarts buffers),
                             geo_objInfos := Some (mb_objInfos buffers)\<rparr>
              else geometry6)
       in Inr geometry7))))))"

text \<open>
  The default group that is pushed to \<^verbatim>\<open>meshBuffers.groups\<close> when the buffers have none.
\<close>

definition withDefaultGroup :: "nat \<Rightarrow> MeshBuffers \<Rightarrow> MeshBuffers" where
  "withDefaultGroup techniqueIdx meshBuffers =
     (if length (mb_groups meshBuffers) = 0
      then meshBuffers\<lparr>mb_groups :=
             [\<lparr>g_start = 0, g_count = real (length (mb_positions meshBuffers)) / 3,
               g_technique = techniqueIdx, g_featureId = None,
               g_renderOrderOffset = None\<rparr>]\<rparr>
      else meshBuffers)"

definition createGeometry ::
  "EmitterConfig \<Rightarrow> nat \<Rightarrow> MeshBuffers \<Rightarrow> Emitter \<Rightarrow> js_error + Emitter" where
  "createGeometry cfg techniqueIdx meshBuffers e =
     (if length (mb_positions meshBuffers) = 0 then Inr e
      else
        (case cfg_techniques cfg of
           None \<Rightarrow> Inl (Error ''Invalid technique index'')
         | Some ts \<Rightarrow>
             if length ts \<le> techniqueIdx then Inl (Error ''Invalid technique index'')
             else
               (case ts ! techniqueIdx of
                  None \<Rightarrow> Inr e
                | Some technique \<Rightarrow>
                    if length (mb_texts meshBuffers) > 0 \<and> isTextTechnique technique
                    then Inr (e\<lparr>m_textGeometries := m_textGeometries e @
                                  [textGeometryOf cfg techniqueIdx meshBuffers]\<rparr>)
                    else if length (mb_texts meshBuffers) > 0 \<and> isPoiTechnique technique
                    then Inr (e\<lparr>m_poiGeometries := m_poiGeometries e @
                                  [poiGeometryOf techniqueIdx meshBuffers]\<rparr>)
                    else
                      (let buffers = withDefaultGroup techniqueIdx meshBuffers;
                           e1 = e\<lparr>m_meshBuffers :=
                                    writeBack techniqueIdx buffers (m_meshBuffers e)\<rparr>
                       in thenDo (meshGeometryOf cfg buffers)
                            (\<lambda>geometry. Inr (e1\<lparr>m_geometries :=
                                                 m_geometries e1 @ [geometry]\<rparr>))))))"

text \<open>
  \<^verbatim>\<open>forEach\<close> over the entries of the map, in insertion order. An exception thrown by the
  callback ends the iteration and leaves \<^verbatim>\<open>createGeometries\<close>.
\<close>

fun forEachMeshBuffers ::
  "EmitterConfig \<Rightarrow> (nat \<times> MeshBuffers) list \<Rightarrow> Emitter \<Rightarrow> js_error + Emitter" where
  "forEachMeshBuffers cfg [] e = Inr e"
| "forEachMeshBuffers cfg ((techniqueIdx, meshBuffers) # rest) e =
     (case createGeometry cfg techniqueIdx meshBuffers e of
        Inl err \<Rightarrow> Inl err
      | Inr e' \<Rightarrow> forEachMeshBuffers cfg rest e')"

definition createGeometries :: "EmitterConfig \<Rightarrow> Emitter \<Rightarrow> js_error + Emitter" where
  "createGeometries cfg e = forEachMeshBuffers cfg (m_meshBuffers e) e"

text \<open>\<^verbatim>\<open>processLines\<close> and \<^verbatim>\<open>processSimpleLines\<close>: one geometry per line group.\<close>

definition solidLineGeometry :: "EmitterConfig \<Rightarrow> LinesGeometry \<Rightarrow> Geometry" where
  "solidLineGeometry cfg linesGeometry =
     \<lparr>geo_type = SolidLine,
      geo_vertexAttributes = [],
      geo_interleavedVertexAttributes = Some
        [\<lparr>iba_type = ''float'', iba_stride = ln_stride linesGeometry,
          iba_buffer = Floats (ln_vertices linesGeometry)\<rparr>],
      geo_groups = [\<lparr>g_start = 0, g_count = real (length (ln_indices linesGeometry)),
                     g_technique = ln_technique linesGeometry, g_featureId = None,
                     g_renderOrderOffset = ln_renderOrderOffset linesGeometry\<rparr>],
      geo_index = Some \<lparr>ba_name = ''index'', ba_buffer = Uints (ln_indices linesGeometry),
                        ba_itemCount = 1, ba_type = ''uint32''\<rparr>,
      geo_edgeIndex = None,
      geo_featureIds = (if m_gatherFeatureIds cfg then ln_featureIds linesGeometry else None),
      geo_featureStarts =
        (if m_gatherFeatureIds cfg then ln_featureStarts linesGeometry else None),
      geo_objInfos = None\<rparr>"

definition simpleLineGeometry :: "EmitterConfig \<Rightarrow> LinesGeometry \<Rightarrow> Geometry" where
  "simpleLineGeometry cfg linesGeometry =
     \<lparr>geo_type = Line,
      geo_vertexAttributes =
        [\<lparr>ba_name = ''position'', ba_buffer = Floats (ln_vertices linesGeometry),
          ba_itemCount = 3, ba_type = ''float''\<rparr>],
      geo_interleavedVertexAttributes = None,
      geo_groups = [\<lparr>g_start = 0, g_count = real (length (ln_indices linesGeometry)),
                     g_technique = ln_technique linesGeometry, g_featureId = None,
                     g_renderOrderOffset = ln_renderOrderOffset linesGeometry\<rparr>],
      geo_index = Some \<lparr>ba_name = ''index'', ba_buffer = Uints (ln_indices linesGeometry),
                        ba_itemCount = 1, ba_type = ''uint32''\<rparr>,
      geo_edgeIndex = None,
      geo_featureIds = (if m_gatherFeatureIds cfg then ln_featureIds linesGeometry else None),
      geo_featureStarts =
        (if m_gatherFeatureIds cfg then ln_featureStarts linesGeometry else None),
      geo_objInfos = None\<rparr>"

definition processLines :: "EmitterConfig \<Rightarrow> LinesGeometry list \<Rightarrow> Emitter \<Rightarrow> Emitter" where
  "processLines cfg linesArray e =
     e\<lparr>m_geometries := m_geometries e @ map (solidLineGeometry cfg) linesArray\<rparr>"

definition processSimpleLines :: "EmitterConfig \<Rightarrow> LinesGeometry list \<Rightarrow> Emitter \<Rightarrow> Emitter" where
  "processSimpleLines cfg linesArray e =
     e\<lparr>m_geometries := m_geometries e @ map (simpleLineGeometry cfg) linesArray\<rparr>"

text \<open>\<^verbatim>\<open>xs.length > 0 ? xs : undefined\<close> for the optional parts of the decoded tile.\<close>

definition nonEmpty :: "'a list \<Rightarrow> 'a list option" where
  "nonEmpty xs = (if length xs > 0 then Some xs else None)"

definition getDecodedTile :: "EmitterConfig \<Rightarrow> Emitter \<Rightarrow> js_error + DecodedTile \<times> Emitter" where
  "getDecodedTile cfg e =
     (case createGeometries cfg e of
        Inl err \<Rightarrow> Inl err
      | Inr e1 \<Rightarrow>
          (let e2 = processSimpleLines cfg (m_simpleLines e1) e1;
               e3 = processLines cfg (m_solidLines e2) e2;
               e4 = processLines cfg (m_dashedLines e3) e3
           in Inr (\<lparr>dec_techniques = cfg_techniques cfg,
                    dec_geometries = m_geometries e4,
                    dec_textGeometries = nonEmpty (m_textGeometries e4),
                    dec_poiGeometries = nonEmpty (m_poiGeometries e4),
                    dec_textPathGeometries = nonEmpty (m_textPathGeometries e4),
                    dec_copyrightHolderIds = nonEmpty (m_sources e4)\<rparr>, e4)))"

text \<open>
  Examples: a catalog with the single technique \<^verbatim>\<open>fill\<close> at index 0, and an emitter that holds
  one triangle under a technique index.
\<close>

definition fillTechnique :: Technique where
  "fillTechnique =
     \<lparr>t_name = ''fill'', t_index = 0, t_label = None, t_useAbbreviation = False,
      t_useIsoCode = False, t_imageTexture = None, t_imageTextureField = None,
      t_imageTexturePrefix = None, t_imageTexturePostfix = None, t_lineWidth = (\<lambda>lvl. None),
      t_caps = None, t_boundaryWalls = None\<rparr>"

definition exampleConfig :: EmitterConfig where
  "exampleConfig =
     \<lparr>m_gatherFeatureIds = False, m_skipShortLabels = True, m_enableElevationOverlay = False,
      cfg_techniques = Some [Some fillTechnique],
      cfg_tileKey_level = 14, cfg_tileSizeOnScreen = 256,
      cfg_projectedTileBounds_min = (0, 0), cfg_projectedTileBounds_max = (2048, 2048),
      cfg_assertActive = False\<rparr>"

definition emptyEmitter :: Emitter where
  "emptyEmitter =
     \<lparr>m_meshBuffers = [], m_geometries = [], m_textGeometries = [],
      m_textPathGeometries = [], m_poiGeometries = [], m_simpleLines = [], m_solidLines = [],
      m_dashedLines = [], m_sources = [], logged = []\<rparr>"

definition triangleBuffers :: MeshBuffers where
  "triangleBuffers =
     (newMeshBuffers Polygon)\<lparr>mb_positions := [0, 0, 0, 1, 0, 0, 0, 1, 0],
                               mb_indices := [0, 1, 2]\<rparr>"

definition triangleEmitter :: "nat \<Rightarrow> Emitter" where
  "triangleEmitter techniqueIdx = emptyEmitter\<lparr>m_meshBuffers := [(techniqueIdx, triangleBuffers)]\<rparr>"

section \<open>Decoded-tile emitter: line features\<close>

text \<open>
  \<^verbatim>\<open>processLineFeature\<close>. A line is the flat array of the world coordinates of its
  points, three numbers per point; the coordinates and the numbers of the configuration are
  finite and held as real numbers. The test of a line against the length of its label is
  computed in the arithmetic of the language, with its rounding and its values that are not
  finite.

  What the function calls outside \<^verbatim>\<open>src\<close> is a field of \<open>LineHelpers\<close>: the projection
  \<^verbatim>\<open>webMercatorTile2TargetWorld\<close> of a tile position, \<^verbatim>\<open>OmvDecoder.getFeatureName\<close>, the
  conversion \<^verbatim>\<open>String\<close> of a number, \<^verbatim>\<open>Math2D.computeSquaredLineLength\<close>,
  \<^verbatim>\<open>textureCoordinateType\<close> of a technique, the reprojection used for equirectangular
  texture coordinates, and \<^verbatim>\<open>triangulateLine\<close>, which appends to the position and index
  arrays it is given. \<^verbatim>\<open>applyLineTechnique\<close> writes only to the array of line geometries it
  is given and is held as a function on that array.
  The last field is the rounding of the arithmetic.
\<close>

datatype TextureCoordinateType = TileSpace | EquirectangularSpace | OtherSpace

record LineHelpers =
  h_toWorld :: "real \<times> real \<Rightarrow> real \<times> real \<times> real"
  h_getFeatureName :: "ValueMap \<Rightarrow> bool \<Rightarrow> bool \<Rightarrow> Value option"
  h_numberToString :: "real \<Rightarrow> string"
  h_computeSquaredLineLength :: "real list \<Rightarrow> real"
  h_textureCoordinateType :: "Technique \<Rightarrow> TextureCoordinateType option"
  h_equirectangular :: "real \<times> real \<Rightarrow> real \<times> real"
  h_triangulateLine ::
    "real list \<Rightarrow> real \<Rightarrow> bool \<Rightarrow> real list \<times> nat list \<Rightarrow> real list \<times> nat list"
  h_applyLineTechnique ::
    "Technique \<Rightarrow> bool \<Rightarrow> int option \<Rightarrow> real list list \<Rightarrow> ValueMap \<Rightarrow> real list list option
       \<Rightarrow> LinesGeometry list \<Rightarrow> LinesGeometry list"
  h_round :: "real \<Rightarrow> number"

definition MIN_AVERAGE_CHAR_WIDTH :: real where
  "MIN_AVERAGE_CHAR_WIDTH = 5"

definition SIZE_ESTIMATION_FACTOR :: real where
  "SIZE_ESTIMATION_FACTOR = 1 / 2"

definition MAX_SAFE_INTEGER :: real where
  "MAX_SAFE_INTEGER = 2 ^ 53 - 1"

definition MIN_SAFE_INTEGER :: real where
  "MIN_SAFE_INTEGER = - (2 ^ 53 - 1)"

text \<open>\<^verbatim>\<open>env.lookup(name)\<close> and \<^verbatim>\<open>String(value)\<close>.\<close>

definition lookup :: "ValueMap \<Rightarrow> string \<Rightarrow> Value option" where
  "lookup env name = map_of env name"

definition String :: "LineHelpers \<Rightarrow> Value \<Rightarrow> string" where
  "String h v =
     (case v of
        Str s \<Rightarrow> s
      | Num n \<Rightarrow> h_numberToString h n
      | Bool b \<Rightarrow> (if b then ''true'' else ''false'')
      | Null \<Rightarrow> ''null'')"

definition processFeatureCommon :: "ValueMap \<Rightarrow> Emitter \<Rightarrow> Emitter" where
  "processFeatureCommon env e =
     (case lookup env ''source'' of
        Some (Str source) \<Rightarrow>
          if source \<noteq> [] \<and> source \<notin> set (m_sources e)
          then e\<lparr>m_sources := m_sources e @ [source]\<rparr>
          else e
      | _ \<Rightarrow> e)"

definition getTextureCoordinateType ::
  "LineHelpers \<Rightarrow> EmitterConfig \<Rightarrow> Technique \<Rightarrow> TextureCoordinateType option" where
  "getTextureCoordinateType h cfg technique =
     (if (isFillTechnique technique \<or> isSolidLineTechnique technique \<or>
          isDashedLineTechnique technique \<or> isExtrudedPolygonTechnique technique) \<and>
         m_enableElevationOverlay cfg
      then Some TileSpace
      else h_textureCoordinateType h technique)"

text \<open>
  \<^verbatim>\<open>getComputeTexCoordsFunc\<close> returns a function for the tile space and for the
  equirectangular space, else \<^verbatim>\<open>undefined\<close>; the function is determined by the type, so
  the type stands for it.
\<close>

definition getComputeTexCoordsFunc ::
  "LineHelpers \<Rightarrow> EmitterConfig \<Rightarrow> Technique \<Rightarrow> TextureCoordinateType option" where
  "getComputeTexCoordsFunc h cfg technique =
     (case getTextureCoordinateType h cfg technique of
        Some TileSpace \<Rightarrow> Some TileSpace
      | Some EquirectangularSpace \<Rightarrow> Some EquirectangularSpace
      | _ \<Rightarrow> None)"

definition computeTexCoords ::
  "LineHelpers \<Rightarrow> TextureCoordinateType \<Rightarrow> real \<times> real \<Rightarrow> real \<Rightarrow> real \<times> real" where
  "computeTexCoords h space tilePos extents =
     (case space of
        TileSpace \<Rightarrow> (fst tilePos / extents, 1 - snd tilePos / extents)
      | _ \<Rightarrow> h_equirectangular h tilePos)"

text \<open>
  The first loop over the techniques: it fixes \<^verbatim>\<open>computeTexCoords\<close> and
  \<^verbatim>\<open>texCoordinateType\<close> and asserts that later techniques agree. The state is the pair of
  the two variables.
\<close>

fun texCoordsLoop ::
  "LineHelpers \<Rightarrow> EmitterConfig \<Rightarrow> Technique option list
     \<Rightarrow> TextureCoordinateType option \<times> TextureCoordinateType option
     \<Rightarrow> js_error + TextureCoordinateType option \<times> TextureCoordinateType option" where
  "texCoordsLoop h cfg [] st = Inr st"
| "texCoordsLoop h cfg (None # ts) st = texCoordsLoop h cfg ts st"
| "texCoordsLoop h cfg (Some technique # ts) (func, texCoordinateType) =
     (if func = None
      then texCoordsLoop h cfg ts
             (getComputeTexCoordsFunc h cfg technique, getTextureCoordinateType h cfg technique)
      else if cfg_assertActive cfg \<and>
              texCoordinateType \<noteq> getTextureCoordinateType h cfg technique
      then Inl AssertionError
      else texCoordsLoop h cfg ts (func, texCoordinateType))"

text \<open>The world-space line and the texture coordinates of one polyline.\<close>

definition worldLine :: "LineHelpers \<Rightarrow> (real \<times> real) list \<Rightarrow> real list" where
  "worldLine h polyline =
     concat (map (\<lambda>pos. case h_toWorld h pos of (x, y, z) \<Rightarrow> [x, y, z]) polyline)"

definition lineUvs ::
  "LineHelpers \<Rightarrow> TextureCoordinateType option \<Rightarrow> real \<Rightarrow> (real \<times> real) list \<Rightarrow> real list" where
  "lineUvs h func extents polyline =
     (case func of
        None \<Rightarrow> []
      | Some space \<Rightarrow>
          concat (map (\<lambda>pos. case computeTexCoords h space pos extents of (u, v) \<Rightarrow> [u, v])
                    polyline))"

text \<open>
  The bounding box of a line, as the loop \<^verbatim>\<open>for (let i = 0; i < aLine.length; i += 3)\<close>
  computes it: the state is \<open>(minX, maxX, minY, maxY)\<close>. In the last round of an array whose
  length is not a multiple of three, a coordinate that is missing is \<^verbatim>\<open>undefined\<close> and
  every comparison with it is false.
\<close>

fun boundingBoxLoop ::
  "real list \<Rightarrow> real \<times> real \<times> real \<times> real \<Rightarrow> real \<times> real \<times> real \<times> real" where
  "boundingBoxLoop (x # y # z # rest) (minX, maxX, minY, maxY) =
     boundingBoxLoop rest
       (if x < minX then x else minX, if x > maxX then x else maxX,
        if y < minY then y else minY, if y > maxY then y else maxY)"
| "boundingBoxLoop [x, y] (minX, maxX, minY, maxY) =
     (if x < minX then x else minX, if x > maxX then x else maxX,
      if y < minY then y else minY, if y > maxY then y else maxY)"
| "boundingBoxLoop [x] (minX, maxX, minY, maxY) =
     (if x < minX then x else minX, if x > maxX then x else maxX, minY, maxY)"
| "boundingBoxLoop [] box = box"

definition boundingBoxOf :: "real list \<Rightarrow> real \<times> real \<times> real \<times> real" where
  "boundingBoxOf aLine =
     boundingBoxLoop aLine
       (MAX_SAFE_INTEGER, MIN_SAFE_INTEGER, MAX_SAFE_INTEGER, MIN_SAFE_INTEGER)"

text \<open>
  \<^verbatim>\<open>tileSizeInMeters\<close> and \<^verbatim>\<open>minTileSpace\<close>, in the arithmetic of the language: the
  products are taken from left to right, each rounded. A \<^verbatim>\<open>tileSizeOnScreen\<close> of zero makes
  \<^verbatim>\<open>metersPerPixel\<close> an infinity, or \<^verbatim>\<open>NaN\<close> for a tile of size zero.
\<close>

definition tileSizeInMeters :: "LineHelpers \<Rightarrow> EmitterConfig \<Rightarrow> number" where
  "tileSizeInMeters h cfg =
     (let tileWidth =
            numSub (h_round h) (Finite (fst (cfg_projectedTileBounds_max cfg)))
              (Finite (fst (cfg_projectedTileBounds_min cfg)));
          tileHeight =
            numSub (h_round h) (Finite (snd (cfg_projectedTileBounds_max cfg)))
              (Finite (snd (cfg_projectedTileBounds_min cfg)))
      in numMax tileWidth tileHeight)"

definition minTileSpace :: "LineHelpers \<Rightarrow> EmitterConfig \<Rightarrow> string \<Rightarrow> number" where
  "minTileSpace h cfg text =
     (let metersPerPixel =
            numDiv (h_round h) (tileSizeInMeters h cfg) (Finite (cfg_tileSizeOnScreen cfg))
      in numMul (h_round h)
           (numMul (h_round h)
              (numMul (h_round h) (Finite MIN_AVERAGE_CHAR_WIDTH) (Finite (real (length text))))
              metersPerPixel)
           (Finite SIZE_ESTIMATION_FACTOR))"

text \<open>
  The test \<^verbatim>\<open>(maxX - minX) * (maxX - minX) + (maxY - minY) * (maxY - minY) >=
  minTileSpace * minTileSpace\<close>, in the arithmetic of the language.
\<close>

definition longEnough :: "LineHelpers \<Rightarrow> number \<Rightarrow> real list \<Rightarrow> bool" where
  "longEnough h minSpace aLine =
     (case boundingBoxOf aLine of
        (minX, maxX, minY, maxY) \<Rightarrow>
          numGe
            (numAdd (h_round h)
               (numMul (h_round h) (numSub (h_round h) (Finite maxX) (Finite minX))
                  (numSub (h_round h) (Finite maxX) (Finite minX)))
               (numMul (h_round h) (numSub (h_round h) (Finite maxY) (Finite minY))
                  (numSub (h_round h) (Finite maxY) (Finite minY))))
            (numMul (h_round h) minSpace minSpace))"

definition validLinesOf ::
  "LineHelpers \<Rightarrow> EmitterConfig \<Rightarrow> string \<Rightarrow> real list list \<Rightarrow> real list list" where
  "validLinesOf h cfg text lines =
     (if m_skipShortLabels cfg then filter (longEnough h (minTileSpace h cfg text)) lines
      else lines)"

text \<open>The label of a text, POI or line-marker technique: \<^verbatim>\<open>undefined\<close>, or a value.\<close>

definition labelValue :: "LineHelpers \<Rightarrow> ValueMap \<Rightarrow> Technique \<Rightarrow> Value option" where
  "labelValue h env technique =
     (case t_label technique of
        Some textLabel \<Rightarrow> lookup env textLabel
      | None \<Rightarrow> h_getFeatureName h env (t_useAbbreviation technique) (t_useIsoCode technique))"

definition textPathGeometryOf ::
  "LineHelpers \<Rightarrow> EmitterConfig \<Rightarrow> ValueMap \<Rightarrow> int option \<Rightarrow> nat \<Rightarrow> string \<Rightarrow> real list
     \<Rightarrow> TextPathGeometry" where
  "textPathGeometryOf h cfg env featureId techniqueIndex text aLine =
     \<lparr>tp_technique = techniqueIndex, tp_path = aLine,
      tp_pathLengthSqr = h_computeSquaredLineLength h aLine, tp_text = text,
      tp_featureId = featureId,
      tp_objInfos = (if m_gatherFeatureIds cfg then Some env else None)\<rparr>"

text \<open>
  The image texture of a line marker. A value that is looked up is used as a string
  (\<^verbatim>\<open>as string\<close>); joined to a prefix or postfix, \<^verbatim>\<open>undefined\<close> reads \<^verbatim>\<open>undefined\<close>.
\<close>

definition markerImageTexture :: "LineHelpers \<Rightarrow> ValueMap \<Rightarrow> Technique \<Rightarrow> string option" where
  "markerImageTexture h env technique =
     (case t_imageTextureField technique of
        None \<Rightarrow> t_imageTexture technique
      | Some field \<Rightarrow>
          (let imageTexture0 = map_option (String h) (lookup env field);
               shown = (\<lambda>t. case t of Some str \<Rightarrow> str | None \<Rightarrow> ''undefined'');
               imageTexture1 = (case t_imageTexturePrefix technique of
                                  Some prefix \<Rightarrow> Some (prefix @ shown imageTexture0)
                                | None \<Rightarrow> imageTexture0);
               imageTexture2 = (case t_imageTexturePostfix technique of
                                  Some postfix \<Rightarrow> Some (shown imageTexture1 @ postfix)
                                | None \<Rightarrow> imageTexture1)
           in imageTexture2))"

definition markerGeometryOf ::
  "EmitterConfig \<Rightarrow> ValueMap \<Rightarrow> int option \<Rightarrow> nat \<Rightarrow> string \<Rightarrow> string option \<Rightarrow> real list
     \<Rightarrow> PoiGeometry" where
  "markerGeometryOf cfg env featureId techniqueIndex text imageTexture aLine =
     \<lparr>pg_positions = positionAttribute aLine, pg_texts = [0], pg_technique = techniqueIndex,
      pg_featureId = featureId, pg_stringCatalog = [Some text, imageTexture],
      pg_imageTextures = [1],
      pg_objInfos = (if m_gatherFeatureIds cfg then Some [Some env] else None)\<rparr>"

text \<open>The branch of the second loop for a text, POI or line-marker technique.\<close>

definition labelBranch ::
  "LineHelpers \<Rightarrow> EmitterConfig \<Rightarrow> ValueMap \<Rightarrow> int option \<Rightarrow> real list list \<Rightarrow> Technique
     \<Rightarrow> Emitter \<Rightarrow> Emitter" where
  "labelBranch h cfg env featureId lines technique e =
     (case labelValue h env technique of
        None \<Rightarrow> e
      | Some value \<Rightarrow>
          (let text = String h value;
               validLines = validLinesOf h cfg text lines
           in if length validLines = 0 then e
              else if isTextTechnique technique
              then e\<lparr>m_textPathGeometries := m_textPathGeometries e @
                       map (textPathGeometryOf h cfg env featureId (t_index technique) text)
                         validLines\<rparr>
              else e\<lparr>m_poiGeometries := m_poiGeometries e @
                       map (markerGeometryOf cfg env featureId (t_index technique) text
                              (markerImageTexture h env technique))
                         validLines\<rparr>))"

text \<open>
  The branch for an extruded line: \<^verbatim>\<open>lines.forEach\<close> triangulates each line into the
  buffers and, when feature ids are gathered, records the feature once per line.
\<close>

fun triangulateLines ::
  "LineHelpers \<Rightarrow> EmitterConfig \<Rightarrow> ValueMap \<Rightarrow> int option \<Rightarrow> real \<Rightarrow> bool \<Rightarrow> nat
     \<Rightarrow> real list list \<Rightarrow> MeshBuffers \<Rightarrow> MeshBuffers" where
  "triangulateLines h cfg env featureId width addCircle start [] b = b"
| "triangulateLines h cfg env featureId width addCircle start (aLine # rest) b =
     (let (ps, is) = h_triangulateLine h aLine width addCircle (mb_positions b, mb_indices b);
          b1 = b\<lparr>mb_positions := ps, mb_indices := is\<rparr>;
          b2 = (if m_gatherFeatureIds cfg
                then b1\<lparr>mb_featureIds := mb_featureIds b1 @ [featureId],
                        mb_featureStarts := mb_featureStarts b1 @ [start],
                        mb_objInfos := mb_objInfos b1 @ [Some env]\<rparr>
                else b1)
      in triangulateLines h cfg env featureId width addCircle start rest b2)"

definition extrudedLineBranch ::
  "LineHelpers \<Rightarrow> EmitterConfig \<Rightarrow> ValueMap \<Rightarrow> int option \<Rightarrow> real list list \<Rightarrow> Technique
     \<Rightarrow> Emitter \<Rightarrow> Emitter" where
  "extrudedLineBranch h cfg env featureId lines technique e =
     (case findOrCreateMeshBuffers (t_index technique) ExtrudedLine (m_meshBuffers e) of
        (None, m1, msgs) \<Rightarrow> e\<lparr>m_meshBuffers := m1, logged := logged e @ msgs\<rparr>
      | (Some meshBuffers, m1, msgs) \<Rightarrow>
          (let e1 = e\<lparr>m_meshBuffers := m1, logged := logged e @ msgs\<rparr>;
               start = length (mb_indices meshBuffers)
           in case t_lineWidth technique (cfg_tileKey_level cfg) of
                None \<Rightarrow> e1
              | Some width \<Rightarrow>
                  (let wantCircle = (cfg_tileKey_level cfg \<ge> 11);
                       addCircle =
                         (wantCircle \<and>
                          (t_caps technique = None \<or> t_caps technique = Some ''Circle''));
                       b = triangulateLines h cfg env featureId width addCircle start lines
                             meshBuffers;
                       count = length (mb_indices b) - start;
                       b' = b\<lparr>mb_groups := mb_groups b @
                               [\<lparr>g_start = real start, g_count = real count,
                                 g_technique = t_index technique, g_featureId = featureId,
                                 g_renderOrderOffset = None\<rparr>]\<rparr>
                   in e1\<lparr>m_meshBuffers :=
                          writeBack (t_index technique) b' (m_meshBuffers e1)\<rparr>)))"

text \<open>The body of the second loop \<^verbatim>\<open>for (const technique of techniques)\<close>.\<close>

definition lineTechniqueStep ::
  "LineHelpers \<Rightarrow> EmitterConfig \<Rightarrow> ValueMap \<Rightarrow> int option \<Rightarrow> real list list \<Rightarrow> real list list
     \<Rightarrow> Technique option \<Rightarrow> Emitter \<Rightarrow> Emitter" where
  "lineTechniqueStep h cfg env featureId lines uvs techniqueOpt e =
     (case techniqueOpt of
        None \<Rightarrow> e
      | Some technique \<Rightarrow>
          (let techniqueName = t_name technique;
               uvsArg = (if getTextureCoordinateType h cfg technique \<noteq> None then Some uvs
                         else None)
           in if techniqueName = ''line''
              then e\<lparr>m_simpleLines :=
                       h_applyLineTechnique h technique (m_gatherFeatureIds cfg) featureId lines
                         env uvsArg (m_simpleLines e)\<rparr>
              else if techniqueName = ''solid-line''
              then e\<lparr>m_solidLines :=
                       h_applyLineTechnique h technique (m_gatherFeatureIds cfg) featureId lines
                         env uvsArg (m_solidLines e)\<rparr>
              else if techniqueName = ''dashed-line''
              then e\<lparr>m_dashedLines :=
                       h_applyLineTechnique h technique (m_gatherFeatureIds cfg) featureId lines
                         env uvsArg (m_dashedLines e)\<rparr>
              else if isTextTechnique technique \<or> isPoiTechnique technique \<or>
                      isLineMarkerTechnique technique
              then labelBranch h cfg env featureId lines technique e
              else if isExtrudedLineTechnique technique
              then extrudedLineBranch h cfg env featureId lines technique e
              else e\<lparr>logged := logged e @ [''Invalid line technique '' @ techniqueName]\<rparr>))"

definition processLineFeature ::
  "LineHelpers \<Rightarrow> EmitterConfig \<Rightarrow> real \<Rightarrow> (real \<times> real) list list \<Rightarrow> ValueMap
     \<Rightarrow> Technique option list \<Rightarrow> int option \<Rightarrow> Emitter \<Rightarrow> js_error + Emitter" where
  "processLineFeature h cfg extents polylines env ts featureId e =
     (let e0 = processFeatureCommon env e
      in thenDo (texCoordsLoop h cfg ts (None, None)) (\<lambda>(func, texCoordinateType).
           (let lines = map (worldLine h) polylines;
                uvs = map (lineUvs h func extents) polylines
            in Inr (foldl (\<lambda>e1 technique.
                             lineTechniqueStep h cfg env featureId lines uvs technique e1)
                      e0 ts))))"

text \<open>
  What the specification speaks of. The bounding box of a line in world space is taken over
  the projected points of the polyline and the two initial values of the loop,
  \<^verbatim>\<open>Number.MAX_SAFE_INTEGER\<close> for the minima and \<^verbatim>\<open>Number.MIN_SAFE_INTEGER\<close> for the maxima: it
  is the bounding box of the points alone when the polyline has a point and the coordinates
  lie between the two initial values, and the box of the initial values for a polyline
  without points. The squared diagonal of a box and the threshold
  \<open>5 * L * (tileSizeInMeters / tileSizeOnScreen) * 0.5\<close> for a label of \<open>L\<close> characters are
  computed in the arithmetic of the language, and a label fits a line when the test \<^verbatim>\<open>>=\<close>
  of the squared diagonal against the square of the threshold holds.
\<close>

definition worldXs :: "LineHelpers \<Rightarrow> (real \<times> real) list \<Rightarrow> real list" where
  "worldXs h polyline = map (\<lambda>pos. fst (h_toWorld h pos)) polyline"

definition worldYs :: "LineHelpers \<Rightarrow> (real \<times> real) list \<Rightarrow> real list" where
  "worldYs h polyline = map (\<lambda>pos. fst (snd (h_toWorld h pos))) polyline"

definition worldBox :: "LineHelpers \<Rightarrow> (real \<times> real) list \<Rightarrow> real \<times> real \<times> real \<times> real" where
  "worldBox h polyline =
     (Min (insert MAX_SAFE_INTEGER (set (worldXs h polyline))),
      Max (insert MIN_SAFE_INTEGER (set (worldXs h polyline))),
      Min (insert MAX_SAFE_INTEGER (set (worldYs h polyline))),
      Max (insert MIN_SAFE_INTEGER (set (worldYs h polyline))))"

definition squaredDiagonal :: "LineHelpers \<Rightarrow> real \<times> real \<times> real \<times> real \<Rightarrow> number" where
  "squaredDiagonal h box =
     (case box of
        (minX, maxX, minY, maxY) \<Rightarrow>
          (let width = numSub (h_round h) (Finite maxX) (Finite minX);
               height = numSub (h_round h) (Finite maxY) (Finite minY)
           in numAdd (h_round h) (numMul (h_round h) width width)
                (numMul (h_round h) height height)))"

definition labelThreshold :: "LineHelpers \<Rightarrow> EmitterConfig \<Rightarrow> nat \<Rightarrow> number" where
  "labelThreshold h cfg textLength =
     numMul (h_round h)
       (numMul (h_round h)
          (numMul (h_round h) (Finite 5) (Finite (real textLength)))
          (numDiv (h_round h) (tileSizeInMeters h cfg) (Finite (cfg_tileSizeOnScreen cfg))))
       (Finite (1 / 2))"

definition fitsLabel :: "LineHelpers \<Rightarrow> EmitterConfig \<Rightarrow> nat \<Rightarrow> (real \<times> real) list \<Rightarrow> bool" where
  "fitsLabel h cfg textLength polyline \<longleftrightarrow>
     numGe (squaredDiagonal h (worldBox h polyline))
       (numMul (h_round h) (labelThreshold h cfg textLength) (labelThreshold h cfg textLength))"

text \<open>The text-path geometries that one step of the second loop adds.\<close>

definition textPathsOfStep ::
  "LineHelpers \<Rightarrow> EmitterConfig \<Rightarrow> ValueMap \<Rightarrow> int option \<Rightarrow> real list list \<Rightarrow> Technique option
     \<Rightarrow> TextPathGeometry list" where
  "textPathsOfStep h cfg env featureId lines techniqueOpt =
     (case techniqueOpt of
        None \<Rightarrow> []
      | Some technique \<Rightarrow>
          if isTextTechnique technique
          then (case labelValue h env technique of
                  None \<Rightarrow> []
                | Some value \<Rightarrow>
                    map (textPathGeometryOf h cfg env featureId (t_index technique)
                           (String h value))
                      (validLinesOf h cfg (String h value) lines))
          else [])"

text \<open>
  An example feature: a street named \<^verbatim>\<open>Main St\<close> with a short and a long polyline, styled by
  a line technique and a text technique, in a tile of 2048 metres shown on 256 pixels (8
  metres per pixel, so that the threshold for seven characters is 140 metres). The
  arithmetic is that of binary64.

  In \<open>overlayConfig\<close> the elevation overlay is enabled and assertions are active. In
  \<open>roundingConfig\<close> the tile is shown on 768 pixels: the threshold is 140 / 3 metres in
  exact arithmetic and the binary64 value below it in the arithmetic of the language, which is
  the length of \<open>edgePolyline\<close>.
\<close>

definition exampleHelpers :: LineHelpers where
  "exampleHelpers =
     \<lparr>h_toWorld = (\<lambda>pos. (fst pos, snd pos, 0)),
      h_getFeatureName = (\<lambda>env useAbbreviation useIsoCode. lookup env ''name''),
      h_numberToString = (\<lambda>n. ''0''),
      h_computeSquaredLineLength = (\<lambda>aLine. 0),
      h_textureCoordinateType = (\<lambda>technique. None),
      h_equirectangular = (\<lambda>pos. pos),
      h_triangulateLine = (\<lambda>aLine width addCircle buffers. buffers),
      h_applyLineTechnique = (\<lambda>technique gather featureId lines env uvs geometries. geometries),
      h_round = binary64\<rparr>"

definition textTechnique :: Technique where
  "textTechnique = fillTechnique\<lparr>t_name := ''text'', t_index := 3\<rparr>"

definition lineTechnique :: Technique where
  "lineTechnique = fillTechnique\<lparr>t_name := ''solid-line'', t_index := 2\<rparr>"

definition exampleEnv :: ValueMap where
  "exampleEnv = [(''name'', Str ''Main St'')]"




definition roundingConfig :: EmitterConfig where
  "roundingConfig = exampleConfig\<lparr>cfg_tileSizeOnScreen := 768\<rparr>"

definition edgePolyline :: "(real \<times> real) list" where
  "edgePolyline = [(0, 0), (6567749456581973 / 140737488355328, 0)]"

section \<open>Decoded-tile emitter: polygons\<close>

text \<open>
  \<^verbatim>\<open>applyPolygonTechnique\<close>. A ring has its contour, a flat array of \<^verbatim>\<open>featureStride\<close>
  numbers per vertex, and its winding. The vertices handed to the triangulation are numbers of
  the language.

  The \<^verbatim>\<open>try\<close> block calls \<^verbatim>\<open>earcut\<close>, which is outside \<^verbatim>\<open>src\<close> and returns the triangles
  or throws, and then builds positions, indices, edges and walls from the triangles, with
  projections and the subdivision modifier that are outside \<^verbatim>\<open>src\<close> as well. That second
  part is held as one function of the vertices, the triangles and the buffers: it gives the
  buffers as the block leaves them and the exception, if the block throws on the way.
\<close>

record Ring =
  r_contour :: "real list"
  r_winding :: bool

record PolygonHelpers =
  ph_earcut :: "number list \<Rightarrow> real list \<Rightarrow> nat \<Rightarrow> js_error + nat list"
  ph_emitFootprint ::
    "Technique \<Rightarrow> ValueMap \<Rightarrow> real \<Rightarrow> number list \<Rightarrow> nat list \<Rightarrow> MeshBuffers
       \<Rightarrow> MeshBuffers \<times> js_error option"

text \<open>
  The vertices pushed for one ring: per vertex its coordinates with the Y component
  inverted, then the index of the next vertex along the edge and along the wall, or \<open>-1\<close>
  where the edge lies on the tile border. \<open>vertexOffset\<close> is 0 for an outer ring.

  The loop \<^verbatim>\<open>for (let i = 0; i < contour.length / featureStride; ++i)\<close> runs once for every
  \<open>i\<close> with \<open>i * featureStride\<close> below the length, also over a last vertex that is not
  whole. An element read beyond the end of the contour is \<^verbatim>\<open>undefined\<close>: \<^verbatim>\<open>NaN\<close> in a
  product and false in every comparison. \<^verbatim>\<open>nextIdx\<close> is the remainder \<^verbatim>\<open>%\<close> of \<open>i + 1\<close> by
  the quotient \<^verbatim>\<open>contour.length / featureStride\<close>, a whole number only for a contour of
  whole vertices. \<^verbatim>\<open>featureStride\<close> is 2 or 4, so that the quotient and the remainder are
  exact.
\<close>

definition contourAt :: "real list \<Rightarrow> nat \<Rightarrow> number" where
  "contourAt contour k = (if k < length contour then Finite (contour ! k) else NaN)"

definition jsRemainder :: "real \<Rightarrow> real \<Rightarrow> real" where
  "jsRemainder a b = a - b * of_int \<lfloor>a / b\<rfloor>"

definition insideExtents :: "real \<Rightarrow> number \<Rightarrow> number \<Rightarrow> number \<Rightarrow> number \<Rightarrow> bool" where
  "insideExtents extents currX currY nextX nextY \<longleftrightarrow>
     \<not> ((numGe (Finite 0) currX \<and> numGe (Finite 0) nextX) \<or>
        (numGe currX (Finite extents) \<and> numGe nextX (Finite extents)) \<or>
        (numGe (Finite 0) currY \<and> numGe (Finite 0) nextY) \<or>
        (numGe currY (Finite extents) \<and> numGe nextY (Finite extents)))"

definition ringVertex ::
  "nat \<Rightarrow> real \<Rightarrow> bool \<Rightarrow> real \<Rightarrow> real list \<Rightarrow> nat \<Rightarrow> number list" where
  "ringVertex featureStride extents boundaryWalls vertexOffset contour i =
     (let coordinates =
            map (\<lambda>j. if j = 1 then numNeg (contourAt contour (i * featureStride + j))
                      else contourAt contour (i * featureStride + j))
              [0 ..< featureStride];
          nextIdx = jsRemainder (real (i + 1)) (real (length contour) / real featureStride);
          next = nat \<lfloor>nextIdx * real featureStride\<rfloor>;
          inside = insideExtents extents
                     (contourAt contour (i * featureStride))
                     (contourAt contour (i * featureStride + 1))
                     (contourAt contour next) (contourAt contour (next + 1))
      in coordinates @
         [Finite (if inside then vertexOffset + nextIdx else - 1),
          Finite (if boundaryWalls \<or> inside then vertexOffset + nextIdx else - 1)])"

definition ringVertices :: "nat \<Rightarrow> real \<Rightarrow> bool \<Rightarrow> real \<Rightarrow> real list \<Rightarrow> number list" where
  "ringVertices featureStride extents boundaryWalls vertexOffset contour =
     concat (map (ringVertex featureStride extents boundaryWalls vertexOffset contour)
               [0 ..< (length contour + featureStride - 1) div featureStride])"

text \<open>
  The loop \<^verbatim>\<open>for (let ringIndex = 0; ringIndex < polygon.length; )\<close> takes a ring as outer
  ring and, in its inner \<^verbatim>\<open>while\<close> loop, the rings that follow with the opposite winding as
  its holes.
\<close>

function ringGroups :: "Ring list \<Rightarrow> (Ring \<times> Ring list) list" where
  "ringGroups [] = []"
| "ringGroups (outer # rest) =
     (outer, takeWhile (\<lambda>r. r_winding r \<noteq> r_winding outer) rest) #
       ringGroups (dropWhile (\<lambda>r. r_winding r \<noteq> r_winding outer) rest)"
  by pat_completeness auto
termination
  by (relation "measure length") (auto simp: length_dropWhile_le less_Suc_eq_le)

text \<open>The holes of a group: each is pushed at the current vertex count, which is recorded
  in \<^verbatim>\<open>holes\<close>.\<close>

fun addHoles ::
  "nat \<Rightarrow> real \<Rightarrow> bool \<Rightarrow> Ring list \<Rightarrow> number list \<times> real list \<Rightarrow> number list \<times> real list" where
  "addHoles featureStride extents boundaryWalls [] acc = acc"
| "addHoles featureStride extents boundaryWalls (hole # rest) (vertices, holes) =
     (let vertexStride = featureStride + 2;
          vertexOffset = real (length vertices) / real vertexStride
      in addHoles featureStride extents boundaryWalls rest
           (vertices @
              ringVertices featureStride extents boundaryWalls vertexOffset (r_contour hole),
            holes @ [vertexOffset]))"

definition groupVertices ::
  "nat \<Rightarrow> real \<Rightarrow> bool \<Rightarrow> Ring \<times> Ring list \<Rightarrow> number list \<times> real list" where
  "groupVertices featureStride extents boundaryWalls grp =
     addHoles featureStride extents boundaryWalls (snd grp)
       (ringVertices featureStride extents boundaryWalls 0 (r_contour (fst grp)), [])"

text \<open>
  \<^verbatim>\<open>try { ... } catch (err) { logger.error(`cannot triangulate geometry`, err); }\<close> for one
  ring group: the buffers after it and what it logs.
\<close>

definition tryRingGroup ::
  "PolygonHelpers \<Rightarrow> Technique \<Rightarrow> ValueMap \<Rightarrow> real \<Rightarrow> nat \<Rightarrow> number list \<times> real list
     \<Rightarrow> MeshBuffers \<times> string list \<Rightarrow> MeshBuffers \<times> string list" where
  "tryRingGroup ph technique env extents vertexStride grp st =
     (case st of (buffers, msgs) \<Rightarrow>
        (case ph_earcut ph (fst grp) (snd grp) vertexStride of
           Inl err \<Rightarrow> (buffers, msgs @ [''cannot triangulate geometry''])
         | Inr triangles \<Rightarrow>
             (case ph_emitFootprint ph technique env extents (fst grp) triangles buffers of
                (buffers', None) \<Rightarrow> (buffers', msgs)
              | (buffers', Some err) \<Rightarrow> (buffers', msgs @ [''cannot triangulate geometry'']))))"

text \<open>The body of \<^verbatim>\<open>for (const polygon of polygons)\<close>.\<close>

definition polygonStep ::
  "PolygonHelpers \<Rightarrow> EmitterConfig \<Rightarrow> Technique \<Rightarrow> nat \<Rightarrow> int option \<Rightarrow> ValueMap \<Rightarrow> real
     \<Rightarrow> nat \<Rightarrow> bool \<Rightarrow> MeshBuffers \<times> string list \<Rightarrow> Ring list \<Rightarrow> MeshBuffers \<times> string list" where
  "polygonStep ph cfg technique techniqueIndex featureId env extents featureStride boundaryWalls
       st polygon =
     (let startIndexCount = length (mb_indices (fst st));
          (b1, msgs) =
            foldl (\<lambda>st1 grp.
                     tryRingGroup ph technique env extents (featureStride + 2)
                       (groupVertices featureStride extents boundaryWalls grp) st1)
              st (ringGroups polygon);
          b2 = (if m_gatherFeatureIds cfg
                then b1\<lparr>mb_objInfos := mb_objInfos b1 @ [Some env],
                        mb_featureIds := mb_featureIds b1 @ [featureId],
                        mb_featureStarts := mb_featureStarts b1 @ [startIndexCount]\<rparr>
                else b1);
          count = int (length (mb_indices b2)) - int startIndexCount;
          b3 = (if count > 0
                then b2\<lparr>mb_groups := mb_groups b2 @
                        [\<lparr>g_start = real startIndexCount, g_count = real_of_int count,
                          g_technique = techniqueIndex, g_featureId = featureId,
                          g_renderOrderOffset = None\<rparr>]\<rparr>
                else b2)
      in (b3, msgs))"

text \<open>\<^verbatim>\<open>featureStride\<close> is 4 with texture coordinates and 2 without; \<^verbatim>\<open>boundaryWalls\<close> is
  \<^verbatim>\<open>technique.boundaryWalls !== false\<close>.\<close>

definition featureStrideOf :: "LineHelpers \<Rightarrow> EmitterConfig \<Rightarrow> Technique \<Rightarrow> nat" where
  "featureStrideOf h cfg technique =
     (if getTextureCoordinateType h cfg technique \<noteq> None then 4 else 2)"

definition boundaryWallsOf :: "Technique \<Rightarrow> bool" where
  "boundaryWallsOf technique \<longleftrightarrow> t_boundaryWalls technique \<noteq> Some False"

definition applyPolygonTechnique ::
  "LineHelpers \<Rightarrow> PolygonHelpers \<Rightarrow> EmitterConfig \<Rightarrow> Ring list list \<Rightarrow> Technique \<Rightarrow> nat
     \<Rightarrow> int option \<Rightarrow> ValueMap \<Rightarrow> real \<Rightarrow> Emitter \<Rightarrow> Emitter" where
  "applyPolygonTechnique h ph cfg polygons technique techniqueIndex featureId env extents e =
     (let isExtruded = isExtrudedPolygonTechnique technique;
          geometryType = (if isExtruded then ExtrudedPolygon else Polygon)
      in case findOrCreateMeshBuffers techniqueIndex geometryType (m_meshBuffers e) of
           (None, m1, msgs) \<Rightarrow> e\<lparr>m_meshBuffers := m1, logged := logged e @ msgs\<rparr>
         | (Some meshBuffers, m1, msgs) \<Rightarrow>
             (let boundaryWalls = boundaryWallsOf technique;
                  featureStride = featureStrideOf h cfg technique;
                  (buffers, errors) =
                    foldl (polygonStep ph cfg technique techniqueIndex featureId env extents
                             featureStride boundaryWalls)
                      (meshBuffers, []) polygons
              in e\<lparr>m_meshBuffers := writeBack techniqueIndex buffers m1,
                    logged := logged e @ msgs @ errors\<rparr>))"

text \<open>
  What the specification says of a failed triangulation, as a second definition: the ring
  groups whose triangulation fails are left out, and the others are processed as if the
  failing ones were not there.
\<close>

definition triangulates ::
  "PolygonHelpers \<Rightarrow> nat \<Rightarrow> number list \<times> real list \<Rightarrow> bool" where
  "triangulates ph vertexStride grp =
     (case ph_earcut ph (fst grp) (snd grp) vertexStride of Inl err \<Rightarrow> False | Inr t \<Rightarrow> True)"

definition goodStep ::
  "PolygonHelpers \<Rightarrow> Technique \<Rightarrow> ValueMap \<Rightarrow> real \<Rightarrow> nat \<Rightarrow> MeshBuffers
     \<Rightarrow> number list \<times> real list \<Rightarrow> MeshBuffers" where
  "goodStep ph technique env extents vertexStride b0 grp =
     (case ph_earcut ph (fst grp) (snd grp) vertexStride of
        Inr triangles \<Rightarrow> fst (ph_emitFootprint ph technique env extents (fst grp) triangles b0)
      | Inl err \<Rightarrow> b0)"

definition polygonStepSkipping ::
  "PolygonHelpers \<Rightarrow> EmitterConfig \<Rightarrow> Technique \<Rightarrow> nat \<Rightarrow> int option \<Rightarrow> ValueMap \<Rightarrow> real
     \<Rightarrow> nat \<Rightarrow> bool \<Rightarrow> MeshBuffers \<Rightarrow> Ring list \<Rightarrow> MeshBuffers" where
  "polygonStepSkipping ph cfg technique techniqueIndex featureId env extents featureStride
       boundaryWalls b polygon =
     (let startIndexCount = length (mb_indices b);
          b1 = foldl (goodStep ph technique env extents (featureStride + 2)) b
                 (filter (triangulates ph (featureStride + 2))
                    (map (groupVertices featureStride extents boundaryWalls)
                       (ringGroups polygon)));
          b2 = (if m_gatherFeatureIds cfg
                then b1\<lparr>mb_objInfos := mb_objInfos b1 @ [Some env],
                        mb_featureIds := mb_featureIds b1 @ [featureId],
                        mb_featureStarts := mb_featureStarts b1 @ [startIndexCount]\<rparr>
                else b1);
          count = int (length (mb_indices b2)) - int startIndexCount
      in if count > 0
         then b2\<lparr>mb_groups := mb_groups b2 @
                 [\<lparr>g_start = real startIndexCount, g_count = real_of_int count,
                   g_technique = techniqueIndex, g_featureId = featureId,
                   g_renderOrderOffset = None\<rparr>]\<rparr>
         else b2)"

text \<open>All ring groups of a list of polygons, with their vertices; and what the log of a run
  over ring groups may hold: the message of the handler, at least once per ring group whose
  triangulation fails and at most once per ring group.\<close>

definition allRingGroups ::
  "nat \<Rightarrow> real \<Rightarrow> bool \<Rightarrow> Ring list list \<Rightarrow> (number list \<times> real list) list" where
  "allRingGroups featureStride extents boundaryWalls polygons =
     concat (map (\<lambda>polygon. map (groupVertices featureStride extents boundaryWalls)
                               (ringGroups polygon)) polygons)"

definition logsFor ::
  "PolygonHelpers \<Rightarrow> nat \<Rightarrow> (number list \<times> real list) list \<Rightarrow> string list \<Rightarrow> bool" where
  "logsFor ph vertexStride gs errs \<longleftrightarrow>
     set errs \<subseteq> {''cannot triangulate geometry''} \<and>
     length (filter (\<lambda>g. \<not> triangulates ph vertexStride g) gs) \<le> length errs \<and>
     length errs \<le> length gs"

text \<open>
  An example: a triangulation that throws on fewer than three vertices and otherwise gives
  one triangle, a footprint that pushes one position per vertex and the triangle's indices,
  and a feature of two polygons, the first degenerate (two vertices), the second a square.
\<close>

definition examplePolygonHelpers :: PolygonHelpers where
  "examplePolygonHelpers =
     \<lparr>ph_earcut = (\<lambda>vertices holes vertexStride.
        if length vertices < 3 * vertexStride then Inl (Error ''degenerate'')
        else Inr [0, 1, 2]),
      ph_emitFootprint = (\<lambda>technique env extents vertices triangles b.
        (b\<lparr>mb_positions := mb_positions b @ replicate (3 * (length vertices div 4)) 0,
           mb_indices := mb_indices b @ map (\<lambda>t. length (mb_positions b) div 3 + t) triangles\<rparr>,
         None))\<rparr>"

definition degenerateRing :: Ring where
  "degenerateRing = \<lparr>r_contour = [0, 0, 10, 10], r_winding = True\<rparr>"

definition squareRing :: Ring where
  "squareRing = \<lparr>r_contour = [0, 0, 100, 0, 100, 100, 0, 100], r_winding = True\<rparr>"

definition holeRing :: Ring where
  "holeRing = \<lparr>r_contour = [10, 10, 20, 10, 20, 20], r_winding = False\<rparr>"

section \<open>Tile object renderer: per-feature draw groups\<close>

text \<open>
  \<^verbatim>\<open>TileObjectRenderer.processTileObjectFeatures\<close>. The expression evaluator, the feature
  state store of the data source and \<^verbatim>\<open>getFeatureId\<close> are outside \<^verbatim>\<open>src\<close>; they enter as
  functions. A technique property is held evaluated against the map environment
  (\<^verbatim>\<open>getPropertyValue(technique?.minZoomLevel, this.m_env)\<close>): \<open>Some z\<close> when the result is
  a number. \<^verbatim>\<open>enabled\<close> is either a plain value, of which only its truth value is used, or
  an expression; an expression is the function that gives the truth value of its result in
  the map environment (\<open>None\<close>) or in the environment of one feature (\<open>Some ($state,
  properties)\<close>, where the properties are present when the feature's entry of \<^verbatim>\<open>objInfos\<close>
  is an object).
\<close>

datatype ObjInfo = Attributes ValueMap | FeatureNumber real | NoInfo

type_synonym featureEnv = "(ValueMap option \<times> ValueMap option) option"

datatype Enabled = Plain bool | Expr "featureEnv \<Rightarrow> bool"

record RenderTechnique =
  rt_minZoomLevel :: "real option"
  rt_maxZoomLevel :: "real option"
  rt_enabled :: "Enabled option"

record TileFeatureData =
  fd_starts :: "int list option"
  fd_objInfos :: "ObjInfo list option"

text \<open>
  A \<^verbatim>\<open>THREE.BufferGeometry\<close> as far as the function reads and writes it: the count of the
  index attribute if there is one, the count of the position attribute, and the draw
  groups. \<^verbatim>\<open>addGroup(start, count)\<close> pushes a group with material index 0;
  \<^verbatim>\<open>clearGroups\<close> empties the list.
\<close>

record DrawGroup =
  dg_start :: int
  dg_count :: int
  dg_materialIndex :: int

record BufferGeometry =
  bg_indexCount :: "int option"
  bg_positionCount :: int
  bg_groups :: "DrawGroup list"

record TileObject =
  to_visible :: bool
  userData_technique :: "RenderTechnique option"
  userData_feature :: "TileFeatureData option"
  to_geometry :: "BufferGeometry option"

definition addGroup :: "int \<Rightarrow> int \<Rightarrow> DrawGroup list \<Rightarrow> DrawGroup list" where
  "addGroup start count gs = gs @ [\<lparr>dg_start = start, dg_count = count, dg_materialIndex = 0\<rparr>]"

text \<open>
  \<^verbatim>\<open>geometry.groups[geometry.groups.length - 1].count += count\<close>; on an empty list the read
  of \<^verbatim>\<open>count\<close> from \<^verbatim>\<open>undefined\<close> throws.
\<close>

definition extendLastGroup :: "int \<Rightarrow> DrawGroup list \<Rightarrow> js_error + DrawGroup list" where
  "extendLastGroup count gs =
     (case rev gs of
        [] \<Rightarrow> Inl TypeError
      | g # earlier \<Rightarrow> Inr (rev earlier @ [g\<lparr>dg_count := dg_count g + count\<rparr>]))"

text \<open>\<^verbatim>\<open>xs[i] ?? d\<close> for an array of numbers.\<close>

definition atOr :: "int list \<Rightarrow> nat \<Rightarrow> int \<Rightarrow> int" where
  "atOr xs i d = (if i < length xs then xs ! i else d)"

text \<open>
  The environment in which \<^verbatim>\<open>enabled\<close> is evaluated for one feature:
  \<^verbatim>\<open>$state\<close> is the feature state of the feature's id (or \<^verbatim>\<open>null\<close>), the parent
  environment holds the properties when they are an object.
\<close>

definition featureEnabled ::
  "(ObjInfo \<Rightarrow> real) \<Rightarrow> (real \<Rightarrow> ValueMap option) \<Rightarrow> Enabled \<Rightarrow> ObjInfo \<Rightarrow> bool" where
  "featureEnabled getFeatureId getFeatureState en properties =
     (case en of
        Expr f \<Rightarrow>
          (let featureId = getFeatureId properties;
               featureState = getFeatureState featureId
           in f (Some (featureState,
                       case properties of Attributes m \<Rightarrow> Some m | _ \<Rightarrow> None)))
      | Plain b \<Rightarrow> True)"

text \<open>
  The body of \<^verbatim>\<open>objInfos.forEach((properties, featureIndex) => ...)\<close>, as a loop over the
  remaining entries with the current \<^verbatim>\<open>featureIndex\<close>, the groups pushed so far and
  \<^verbatim>\<open>endOfLastGroup\<close>.
\<close>

fun forEachFeature ::
  "(ObjInfo \<Rightarrow> bool) \<Rightarrow> int list \<Rightarrow> int \<Rightarrow> ObjInfo list \<Rightarrow> nat \<Rightarrow> DrawGroup list \<Rightarrow> int option
     \<Rightarrow> js_error + DrawGroup list" where
  "forEachFeature isEnabled sts finalIndex [] featureIndex gs endOfLastGroup = Inr gs"
| "forEachFeature isEnabled sts finalIndex (properties # rest) featureIndex gs endOfLastGroup =
     (if \<not> isEnabled properties
      then forEachFeature isEnabled sts finalIndex rest (Suc featureIndex) gs endOfLastGroup
      else
        (let start = atOr sts featureIndex 0;
             end = atOr sts (featureIndex + 1) finalIndex;
             count = end - start
         in if Some start = endOfLastGroup
            then (case extendLastGroup count gs of
                    Inl err \<Rightarrow> Inl err
                  | Inr gs' \<Rightarrow>
                      forEachFeature isEnabled sts finalIndex rest (Suc featureIndex) gs'
                        (Some (start + count)))
            else forEachFeature isEnabled sts finalIndex rest (Suc featureIndex)
                   (addGroup start count gs) (Some (start + count))))"

text \<open>\<^verbatim>\<open>geometry.getIndex()?.count ?? geometry.attributes.position.count\<close>\<close>

definition finalIndexOf :: "BufferGeometry \<Rightarrow> int" where
  "finalIndexOf g = (case bg_indexCount g of Some c \<Rightarrow> c | None \<Rightarrow> bg_positionCount g)"

definition processTileObjectFeatures ::
  "(ObjInfo \<Rightarrow> real) \<Rightarrow> (real \<Rightarrow> ValueMap option) \<Rightarrow> real \<Rightarrow> TileObject
     \<Rightarrow> js_error + bool \<times> TileObject" where
  "processTileObjectFeatures getFeatureId getFeatureState zoomLevel object =
     (let technique = userData_technique object;
          minZoom = (case technique of None \<Rightarrow> None | Some t \<Rightarrow> rt_minZoomLevel t);
          maxZoom = (case technique of None \<Rightarrow> None | Some t \<Rightarrow> rt_maxZoomLevel t)
      in if (case minZoom of Some z \<Rightarrow> zoomLevel < z | None \<Rightarrow> False) then Inr (False, object)
         else if (case maxZoom of Some z \<Rightarrow> zoomLevel \<ge> z | None \<Rightarrow> False)
         then Inr (False, object)
         else
           (case (case technique of None \<Rightarrow> None | Some t \<Rightarrow> rt_enabled t) of
              None \<Rightarrow> Inr (True, object)
            | Some en \<Rightarrow>
                (case (userData_feature object, en) of
                   (None, Plain b) \<Rightarrow> Inr (b, object)
                 | (None, Expr f) \<Rightarrow> Inr (f None, object)
                 | (Some feature, Plain b) \<Rightarrow> Inr (b, object)
                 | (Some feature, Expr f) \<Rightarrow>
                     (case (fd_objInfos feature, fd_starts feature) of
                        (Some infos, Some sts) \<Rightarrow>
                          (case to_geometry object of
                             None \<Rightarrow> Inr (True, object)
                           | Some g \<Rightarrow>
                               (let finalIndex = finalIndexOf g
                                in case forEachFeature
                                          (featureEnabled getFeatureId getFeatureState en)
                                          sts finalIndex infos 0 [] None of
                                     Inl err \<Rightarrow> Inl err
                                   | Inr gs \<Rightarrow>
                                       Inr (length gs > 0,
                                            object\<lparr>to_geometry := Some (g\<lparr>bg_groups := gs\<rparr>)\<rparr>)))
                      | _ \<Rightarrow> Inr (True, object)))))"

text \<open>
  What the specification says the groups are: the index ranges of the enabled features, in
  feature order, with a range that starts where the previous group ends merged into that
  group.
\<close>

fun enabledRanges ::
  "(ObjInfo \<Rightarrow> bool) \<Rightarrow> int list \<Rightarrow> int \<Rightarrow> ObjInfo list \<Rightarrow> nat \<Rightarrow> (int \<times> int) list" where
  "enabledRanges isEnabled sts finalIndex [] i = []"
| "enabledRanges isEnabled sts finalIndex (p # ps) i =
     (if isEnabled p
      then (atOr sts i 0, atOr sts (i + 1) finalIndex) #
             enabledRanges isEnabled sts finalIndex ps (Suc i)
      else enabledRanges isEnabled sts finalIndex ps (Suc i))"

fun mergeInto :: "int \<times> int \<Rightarrow> (int \<times> int) list \<Rightarrow> (int \<times> int) list" where
  "mergeInto (s, e) [] = [(s, e)]"
| "mergeInto (s, e) ((s', e') # rs) =
     (if s' = e then mergeInto (s, e') rs else (s, e) # mergeInto (s', e') rs)"

fun mergeRanges :: "(int \<times> int) list \<Rightarrow> (int \<times> int) list" where
  "mergeRanges [] = []"
| "mergeRanges (r # rs) = mergeInto r rs"

definition groupOfRange :: "int \<times> int \<Rightarrow> DrawGroup" where
  "groupOfRange r = \<lparr>dg_start = fst r, dg_count = snd r - fst r, dg_materialIndex = 0\<rparr>"

definition indicesOfGroup :: "DrawGroup \<Rightarrow> int set" where
  "indicesOfGroup g = {dg_start g ..< dg_start g + dg_count g}"

text \<open>Ranges in index order: each range is well formed and ends no later than the next
  one starts.\<close>

fun chain :: "(int \<times> int) list \<Rightarrow> bool" where
  "chain [] = True"
| "chain [(s, e)] = (s \<le> e)"
| "chain ((s, e) # (s', e') # rs) = (s \<le> e \<and> e \<le> s' \<and> chain ((s', e') # rs))"

text \<open>Consecutive groups are separated by at least one index that is drawn by neither.\<close>

fun separated :: "DrawGroup list \<Rightarrow> bool" where
  "separated [] = True"
| "separated [g] = True"
| "separated (g # h # gs) = (dg_start g + dg_count g < dg_start h \<and> separated (h # gs))"

text \<open>
  A worked example: four features of three indices each in an index buffer of twelve;
  the technique is enabled for a feature when its state has \<^verbatim>\<open>on\<close> set to true, and the
  features 1, 2 and 4 have such a state.
\<close>

definition exampleEnabled :: "featureEnv \<Rightarrow> bool" where
  "exampleEnabled env =
     (case env of
        Some (Some state, _) \<Rightarrow> map_of state ''on'' = Some (Bool True)
      | _ \<Rightarrow> False)"

definition exampleTechnique :: RenderTechnique where
  "exampleTechnique =
     \<lparr>rt_minZoomLevel = Some 5, rt_maxZoomLevel = None, rt_enabled = Some (Expr exampleEnabled)\<rparr>"

definition exampleFeatureData :: TileFeatureData where
  "exampleFeatureData =
     \<lparr>fd_starts = Some [0, 3, 6, 9],
      fd_objInfos = Some [FeatureNumber 1, FeatureNumber 2, FeatureNumber 3, FeatureNumber 4]\<rparr>"

definition exampleGeometry :: BufferGeometry where
  "exampleGeometry =
     \<lparr>bg_indexCount = Some 12, bg_positionCount = 8,
      bg_groups = [\<lparr>dg_start = 0, dg_count = 12, dg_materialIndex = 0\<rparr>]\<rparr>"

definition exampleObject :: TileObject where
  "exampleObject =
     \<lparr>to_visible = True, userData_technique = Some exampleTechnique,
      userData_feature = Some exampleFeatureData, to_geometry = Some exampleGeometry\<rparr>"

definition exampleFeatureId :: "ObjInfo \<Rightarrow> real" where
  "exampleFeatureId p = (case p of FeatureNumber n \<Rightarrow> n | _ \<Rightarrow> 0)"

definition exampleFeatureState :: "real \<Rightarrow> ValueMap option" where
  "exampleFeatureState i =
     (if i = 1 \<or> i = 2 \<or> i = 4 then Some [(''on'', Bool True)] else None)"

section \<open>Tile object renderer: the opaque sort\<close>

text \<open>
  \<^verbatim>\<open>TileObjectRenderer.setupRenderer\<close> installs \<^verbatim>\<open>painterSortStable\<close> as the renderer's
  opaque sort. A render item of three.js, with the parts of its object that the comparators
  read: \<^verbatim>\<open>userData.tileKey\<close> (of which only the morton code is used) and the
  \<^verbatim>\<open>MapObjectAdapter\<close> registered for the object, if any. All numbers are JavaScript
  numbers. The comparators test \<^verbatim>\<open>a.program !== b.program\<close> on the program objects
  themselves, so a program carries its identity beside its id.
\<close>

record Program =
  p_ref :: nat
  p_id :: real

record DataSource =
  dataSourceOrder :: real

record MapObjectAdapter =
  moa_dataSource :: "DataSource option"
  moa_level :: "real option"
  moa_kind :: "string list option"

record Object3D =
  ud_tileKey_mortonCode :: "real option"
  obj_adapter :: "MapObjectAdapter option"

record RenderItem =
  ri_groupOrder :: real
  ri_renderOrder :: real
  ri_program :: Program
  ri_material_id :: real
  ri_z :: real
  ri_id :: real
  ri_object :: Object3D

definition stableSort :: "RenderItem \<Rightarrow> RenderItem \<Rightarrow> real" where
  "stableSort a b =
     (if ri_groupOrder a \<noteq> ri_groupOrder b then ri_groupOrder a - ri_groupOrder b
      else if ri_renderOrder a \<noteq> ri_renderOrder b then ri_renderOrder a - ri_renderOrder b
      else if ud_tileKey_mortonCode (ri_object a) \<noteq> None \<and>
              ud_tileKey_mortonCode (ri_object b) \<noteq> None \<and>
              ud_tileKey_mortonCode (ri_object a) \<noteq> ud_tileKey_mortonCode (ri_object b)
      then the (ud_tileKey_mortonCode (ri_object a)) - the (ud_tileKey_mortonCode (ri_object b))
      else if p_ref (ri_program a) \<noteq> p_ref (ri_program b)
      then p_id (ri_program a) - p_id (ri_program b)
      else if ri_material_id a \<noteq> ri_material_id b then ri_material_id a - ri_material_id b
      else if ri_z a \<noteq> ri_z b then ri_z a - ri_z b
      else ri_id a - ri_id b)"

text \<open>\<^verbatim>\<open>mapObjectAdapter?.dataSource?.dataSourceOrder\<close>\<close>

definition dataSourceOrderOf :: "RenderItem \<Rightarrow> real option" where
  "dataSourceOrderOf a =
     (case obj_adapter (ri_object a) of
        None \<Rightarrow> None
      | Some ad \<Rightarrow>
          (case moa_dataSource ad of None \<Rightarrow> None | Some ds \<Rightarrow> Some (dataSourceOrder ds)))"

text \<open>\<^verbatim>\<open>mapObjectAdapter?.level\<close>\<close>

definition levelOf :: "RenderItem \<Rightarrow> real option" where
  "levelOf a = (case obj_adapter (ri_object a) of None \<Rightarrow> None | Some ad \<Rightarrow> moa_level ad)"

text \<open>\<^verbatim>\<open>mapObjectAdapter.kind?.find(s => s === "building") !== undefined\<close>\<close>

definition isBuilding :: "RenderItem \<Rightarrow> bool" where
  "isBuilding a =
     (case obj_adapter (ri_object a) of
        None \<Rightarrow> False
      | Some ad \<Rightarrow>
          (case moa_kind ad of None \<Rightarrow> False | Some ks \<Rightarrow> ''building'' \<in> set ks))"

text \<open>
  \<^verbatim>\<open>BackgroundDataSource.GROUND_RENDER_ORDER\<close> is declared outside \<^verbatim>\<open>src\<close>; it is the
  first parameter.
\<close>

definition painterSortStable :: "real \<Rightarrow> RenderItem \<Rightarrow> RenderItem \<Rightarrow> real" where
  "painterSortStable GROUND_RENDER_ORDER a b =
     (let dataSourceOrder = dataSourceOrderOf a;
          otherDataSourceOrder = dataSourceOrderOf b
      in if dataSourceOrder \<noteq> None \<and> otherDataSourceOrder \<noteq> None \<and>
            dataSourceOrder \<noteq> otherDataSourceOrder
         then the dataSourceOrder - the otherDataSourceOrder
         else if ri_renderOrder a = GROUND_RENDER_ORDER \<or>
                 ri_renderOrder b = GROUND_RENDER_ORDER
         then stableSort a b
         else if levelOf a \<noteq> None \<and> levelOf b \<noteq> None
         then (let eitherIsBuilding = (isBuilding a \<or> isBuilding b);
                   sameLevel = (levelOf a = levelOf b)
               in if sameLevel \<or> eitherIsBuilding then stableSort a b
                  else the (levelOf a) - the (levelOf b))
         else stableSort a b)"

text \<open>The two guards of \<^verbatim>\<open>painterSortStable\<close>, named.\<close>

definition byDataSourceOrder :: "RenderItem \<Rightarrow> RenderItem \<Rightarrow> bool" where
  "byDataSourceOrder a b \<longleftrightarrow>
     (\<exists>da db. dataSourceOrderOf a = Some da \<and> dataSourceOrderOf b = Some db \<and> da \<noteq> db)"

definition byLevel :: "real \<Rightarrow> RenderItem \<Rightarrow> RenderItem \<Rightarrow> bool" where
  "byLevel ground a b \<longleftrightarrow>
     ri_renderOrder a \<noteq> ground \<and> ri_renderOrder b \<noteq> ground \<and>
     (\<exists>la lb. levelOf a = Some la \<and> levelOf b = Some lb \<and> la \<noteq> lb) \<and>
     \<not> isBuilding a \<and> \<not> isBuilding b"

text \<open>Two render items for the examples: same data source, same level, different tiles.\<close>

definition exampleItem ::
  "real \<Rightarrow> real \<Rightarrow> real \<Rightarrow> real \<Rightarrow> string list \<Rightarrow> nat \<Rightarrow> RenderItem" where
  "exampleItem dsOrder lvl rOrder morton kinds ident =
     \<lparr>ri_groupOrder = 0, ri_renderOrder = rOrder,
      ri_program = \<lparr>p_ref = ident, p_id = real ident\<rparr>, ri_material_id = real ident,
      ri_z = 0, ri_id = real ident,
      ri_object = \<lparr>ud_tileKey_mortonCode = Some morton,
                obj_adapter = Some \<lparr>moa_dataSource = Some \<lparr>dataSourceOrder = dsOrder\<rparr>,
                                moa_level = Some lvl, moa_kind = Some kinds\<rparr>\<rparr>\<rparr>"

section \<open>Road picker\<close>


























section \<open>Properties of the stencil allocation\<close>

subsection \<open>Facts about first occurrences\<close>

lemma set_firstOccurrences: "set (firstOccurrences xs) = set xs"
  by (induction xs) auto

lemma distinct_firstOccurrences: "distinct (firstOccurrences xs)"
  by (induction xs) (auto simp: set_firstOccurrences)

lemma firstOccurrences_snoc:
  "firstOccurrences (xs @ [r]) =
     (if r \<in> set xs then firstOccurrences xs else firstOccurrences xs @ [r])"
  by (induction xs) (auto simp: set_firstOccurrences)

lemma firstOccurrences_append:
  "firstOccurrences (xs @ ys) =
     firstOccurrences xs @ filter (\<lambda>y. y \<notin> set xs) (firstOccurrences ys)"
  by (induction xs) (auto simp: conj_commute)

lemma positionIn_append:
  "x \<in> set xs \<Longrightarrow> positionIn (xs @ ys) x = positionIn xs x"
  by (simp add: positionIn_def)

lemma positionIn_fresh:
  "x \<notin> set xs \<Longrightarrow> positionIn (xs @ x # ys) x = length xs"
  by (induction xs) (auto simp add: positionIn_def)

lemma positionIn_firstOccurrences_prefix:
  "r \<in> set xs \<Longrightarrow>
     positionIn (firstOccurrences (xs @ ys)) r = positionIn (firstOccurrences xs) r"
  by (simp add: firstOccurrences_append positionIn_append set_firstOccurrences)

subsection \<open>The frame invariant\<close>

text \<open>
  After the render orders \<open>seen\<close> have been queried since the last \<^verbatim>\<open>prepareRender\<close>, the
  counter is one more than the number of distinct render orders and each of them is mapped
  to one more than its rank of first occurrence.
\<close>

definition frameInv :: "real list \<Rightarrow> stencil_state \<Rightarrow> bool" where
  "frameInv seen s \<longleftrightarrow>
     m_stencilValue s = 1 + int (length (firstOccurrences seen)) \<and>
     m_renderOrderStencilValues s =
       (\<lambda>r. if r \<in> set seen then Some (1 + int (positionIn (firstOccurrences seen) r))
            else None)"

lemma frameInv_prepareRender: "frameInv [] (prepareRender s)"
  by (simp add: frameInv_def prepareRender_def DEFAULT_STENCIL_VALUE_def)

lemma getStencilValue_val:
  assumes "frameInv seen s"
  shows "fst (getStencilValue r s) = 1 + int (positionIn (firstOccurrences (seen @ [r])) r)"
  using assms
  by (auto simp: frameInv_def getStencilValue_def allocateStencilValue_def Let_def
      firstOccurrences_snoc positionIn_fresh[where ys="[]", simplified] set_firstOccurrences
      split: option.splits if_splits)

lemma getStencilValue_inv:
  assumes "frameInv seen s"
  shows "frameInv (seen @ [r]) (snd (getStencilValue r s))"
  using assms
  by (auto simp: frameInv_def getStencilValue_def allocateStencilValue_def Let_def fun_eq_iff
      positionIn_append firstOccurrences_snoc positionIn_fresh[where ys="[]", simplified]
      set_firstOccurrences split: option.splits if_splits)

lemma getStencilValues_inv:
  "frameInv seen s \<Longrightarrow>
     fst (getStencilValues rs s) =
       map (\<lambda>r. 1 + int (positionIn (firstOccurrences (seen @ rs)) r)) rs \<and>
     frameInv (seen @ rs) (snd (getStencilValues rs s))"
proof (induction rs arbitrary: seen s)
  case Nil
  then show ?case by simp
next
  case (Cons r rs)
  let ?s1 = "snd (getStencilValue r s)"
  have inv1: "frameInv (seen @ [r]) ?s1"
    using Cons.prems by (rule getStencilValue_inv)
  have v: "fst (getStencilValue r s) =
             1 + int (positionIn (firstOccurrences (seen @ r # rs)) r)"
    using getStencilValue_val[OF Cons.prems, of r]
      positionIn_firstOccurrences_prefix[of r "seen @ [r]" rs] by simp
  from Cons.IH[OF inv1] v show ?case
    by (simp add: split_beta)
qed

text \<open>
  C7. Within one frame, that is for any sequence \<open>rs\<close> of render orders queried through
  \<^verbatim>\<open>getStencilValue\<close> after \<^verbatim>\<open>prepareRender\<close>: \<^verbatim>\<open>prepareRender\<close> resets the counter to 1
  and empties the map, whatever the state was; the value returned for a render order is one
  more than its rank among the distinct render orders in order of first occurrence (so the
  values start at 1, grow by 1 with each new render order, 0 is never handed out, and a
  repeated query returns the value of the first one); afterwards the map holds exactly the
  queried render orders with these values and the counter is one more than their number.
\<close>

theorem stencil_values_per_frame:
  "prepareRender s = \<lparr>m_renderOrderStencilValues = Map.empty, m_stencilValue = 1\<rparr> \<and>
   getStencilValues rs (prepareRender s) =
     (map (\<lambda>r. 1 + int (positionIn (firstOccurrences rs) r)) rs,
      \<lparr>m_renderOrderStencilValues =
         (\<lambda>r. if r \<in> set rs then Some (1 + int (positionIn (firstOccurrences rs) r))
              else None),
       m_stencilValue = 1 + int (length (firstOccurrences rs))\<rparr>)"
proof -
  have reset: "prepareRender s = \<lparr>m_renderOrderStencilValues = Map.empty, m_stencilValue = 1\<rparr>"
    by (simp add: prepareRender_def DEFAULT_STENCIL_VALUE_def)
  have run: "fst (getStencilValues rs (prepareRender s)) =
         map (\<lambda>r. 1 + int (positionIn (firstOccurrences rs) r)) rs"
    and inv: "frameInv rs (snd (getStencilValues rs (prepareRender s)))"
    using getStencilValues_inv[OF frameInv_prepareRender, of rs s] by simp_all
  from inv have "snd (getStencilValues rs (prepareRender s)) =
      \<lparr>m_renderOrderStencilValues =
         (\<lambda>r. if r \<in> set rs then Some (1 + int (positionIn (firstOccurrences rs) r))
              else None),
       m_stencilValue = 1 + int (length (firstOccurrences rs))\<rparr>"
    by (simp add: frameInv_def)
  with run reset show ?thesis
    by (metis prod.collapse)
qed

section \<open>Properties of the mesh-buffer map\<close>

lemma mb_type_newMeshBuffers: "mb_type (newMeshBuffers ty) = ty"
  by (simp add: newMeshBuffers_def)

lemma map_of_writeBack:
  "map_of (writeBack i b m) k = (if k = i \<and> map_of m i \<noteq> None then Some b else map_of m k)"
  by (induction i b m rule: writeBack.induct) auto

lemma findOrCreateMeshBuffers_step:
  "(case findOrCreateMeshBuffers index ty m of (r, m', msgs) \<Rightarrow>
      r = (case map_of m index of
             None \<Rightarrow> Some (newMeshBuffers ty)
           | Some b \<Rightarrow> if mb_type b = ty then Some b else None) \<and>
      m' = (case map_of m index of None \<Rightarrow> m @ [(index, newMeshBuffers ty)] | Some b \<Rightarrow> m) \<and>
      (case r of None \<Rightarrow> True | Some b \<Rightarrow> mb_type b = ty \<and> map_of m' index = Some b))"
  by (auto simp: findOrCreateMeshBuffers_def mb_type_newMeshBuffers map_add_def Let_def
      split: option.splits)

lemma meshBufferSession_storedType:
  "storedType (meshBufferSession calls m) index =
     (case storedType m index of Some t \<Rightarrow> Some t | None \<Rightarrow> firstRequestedType index calls)"
proof (induction calls arbitrary: m)
  case Nil
  then show ?case by (simp split: option.splits)
next
  case (Cons c calls)
  obtain k ty change where c: "c = (k, ty, change)" by (cases c)
  show ?case
    apply (simp add: c Cons.IH split: prod.splits option.splits)
    apply (auto simp: findOrCreateMeshBuffers_def Let_def storedType_def map_of_writeBack
        mb_type_newMeshBuffers map_add_def split: option.splits if_splits)
    done
qed

text \<open>
  C10. One call of \<^verbatim>\<open>findOrCreateMeshBuffers\<close>: for an index with no buffer it stores and
  returns a fresh buffer of the requested type; for an index with a buffer it never changes
  the map, returns the stored buffer when its type is the requested one and \<^verbatim>\<open>undefined\<close>
  otherwise; so a returned buffer has the requested type and is the one stored under the
  index. Over a whole session (any sequence of calls, each followed by any change the caller
  makes to the buffer's arrays), the type stored under an index is the one it had at the
  start, or else the type of the first call for that index.
\<close>

theorem findOrCreateMeshBuffers_type_fixed:
  "(case findOrCreateMeshBuffers index ty m of (r, m', msgs) \<Rightarrow>
      r = (case map_of m index of
             None \<Rightarrow> Some (newMeshBuffers ty)
           | Some b \<Rightarrow> if mb_type b = ty then Some b else None) \<and>
      m' = (case map_of m index of None \<Rightarrow> m @ [(index, newMeshBuffers ty)] | Some b \<Rightarrow> m) \<and>
      (case r of None \<Rightarrow> True | Some b \<Rightarrow> mb_type b = ty \<and> map_of m' index = Some b)) \<and>
   storedType (meshBufferSession calls m) index =
     (case storedType m index of Some t \<Rightarrow> Some t | None \<Rightarrow> firstRequestedType index calls)"
  by (rule conjI[OF findOrCreateMeshBuffers_step meshBufferSession_storedType])

section \<open>Properties of the draw-group regeneration\<close>

lemma extendLastGroup_snoc:
  "extendLastGroup c (done @ [g]) = Inr (done @ [g\<lparr>dg_count := dg_count g + c\<rparr>])"
  by (simp add: extendLastGroup_def)

lemma groupOfRange_of_group:
  "dg_materialIndex g = 0 \<Longrightarrow> groupOfRange (dg_start g, dg_start g + dg_count g) = g"
  by (simp add: groupOfRange_def)

lemma forEachFeature_open_group:
  "dg_materialIndex g = 0 \<Longrightarrow>
   forEachFeature en sts fin ps i (done @ [g]) (Some (dg_start g + dg_count g)) =
     Inr (done @ map groupOfRange
            (mergeInto (dg_start g, dg_start g + dg_count g) (enabledRanges en sts fin ps i)))"
proof (induction ps arbitrary: i "done" g)
  case Nil
  then show ?case by (simp add: groupOfRange_of_group)
next
  case (Cons p ps)
  show ?case
  proof (cases "en p")
    case False
    then show ?thesis using Cons.IH[OF Cons.prems] by simp
  next
    case True
    let ?start = "atOr sts i 0" and ?end = "atOr sts (i + 1) fin"
    show ?thesis
    proof (cases "?start = dg_start g + dg_count g")
      case same: True
      let ?g = "g\<lparr>dg_count := dg_count g + (?end - ?start)\<rparr>"
      have "dg_materialIndex ?g = 0" using Cons.prems by simp
      from Cons.IH[OF this, of "Suc i" "done"] same True show ?thesis
        by (simp add: extendLastGroup_snoc Let_def)
    next
      case differ: False
      let ?g = "\<lparr>dg_start = ?start, dg_count = ?end - ?start, dg_materialIndex = 0\<rparr>"
      have "dg_materialIndex ?g = 0" by simp
      from Cons.IH[OF this, of "Suc i" "done @ [g]"] differ True Cons.prems show ?thesis
        by (simp add: addGroup_def Let_def groupOfRange_of_group)
    qed
  qed
qed

lemma forEachFeature_start:
  "forEachFeature en sts fin ps i [] None =
     Inr (map groupOfRange (mergeRanges (enabledRanges en sts fin ps i)))"
proof (induction ps arbitrary: i)
  case Nil
  then show ?case by simp
next
  case (Cons p ps)
  show ?case
  proof (cases "en p")
    case False
    then show ?thesis using Cons.IH by simp
  next
    case True
    let ?g = "\<lparr>dg_start = atOr sts i 0, dg_count = atOr sts (i + 1) fin - atOr sts i 0, dg_materialIndex = 0\<rparr>"
    have "dg_materialIndex ?g = 0" by simp
    from forEachFeature_open_group[OF this, of en sts fin ps "Suc i" "[]"] True show ?thesis
      by (simp add: addGroup_def Let_def)
  qed
qed

lemma indicesOfGroup_groupOfRange: "indicesOfGroup (groupOfRange r) = {fst r ..< snd r}"
  by (simp add: indicesOfGroup_def groupOfRange_def)

lemma mergeInto_covers:
  "chain ((s, e) # rs) \<Longrightarrow>
     (\<Union>r \<in> set (mergeInto (s, e) rs). {fst r ..< snd r}) = (\<Union>r \<in> set ((s, e) # rs). {fst r ..< snd r})"
proof (induction "(s, e)" rs arbitrary: s e rule: mergeInto.induct)
  case (1 s e)
  then show ?case by simp
next
  case (2 s e s' e' rs)
  show ?case
  proof (cases "s' = e")
    case True
    have c: "chain ((s, e') # rs)" using "2.prems" True by (cases rs) auto
    have le: "s \<le> e" "e \<le> e'" using "2.prems" True by (cases rs; auto)+
    have "{s..<e'} = {s..<e} \<union> {e..<e'}" using le by auto
    with "2.hyps"(1)[OF True c] True show ?thesis by auto
  next
    case False
    have c: "chain ((s', e') # rs)" using "2.prems" by simp
    from "2.hyps"(2)[OF False c] False show ?thesis by auto
  qed
qed

lemma mergeInto_hd: "\<exists>e' rest. mergeInto (s, e) rs = (s, e') # rest"
  by (induction "(s, e)" rs arbitrary: s e rule: mergeInto.induct) auto

lemma mergeInto_separated:
  "chain ((s, e) # rs) \<Longrightarrow> separated (map groupOfRange (mergeInto (s, e) rs))"
proof (induction "(s, e)" rs arbitrary: s e rule: mergeInto.induct)
  case (1 s e)
  then show ?case by simp
next
  case (2 s e s' e' rs)
  show ?case
  proof (cases "s' = e")
    case True
    have c: "chain ((s, e') # rs)" using "2.prems" True by (cases rs) auto
    from "2.hyps"(1)[OF True c] True show ?thesis by simp
  next
    case False
    have c: "chain ((s', e') # rs)" using "2.prems" by simp
    obtain e'' rest where m: "mergeInto (s', e') rs = (s', e'') # rest"
      using mergeInto_hd by blast
    have "e < s'" using "2.prems" False by simp
    with "2.hyps"(2)[OF False c] False m show ?thesis
      by (simp add: groupOfRange_def)
  qed
qed

lemma chainI:
  "fst r \<le> snd r \<Longrightarrow> chain rs \<Longrightarrow> \<forall>x\<in>set rs. snd r \<le> fst x \<Longrightarrow> chain (r # rs)"
  by (cases rs; cases r) auto

lemma enabledRanges_chain:
  assumes "sorted sts" and "\<forall>s\<in>set sts. s \<le> fin"
  shows "length sts = i + length ps \<Longrightarrow>
           chain (enabledRanges en sts fin ps i) \<and>
           (\<forall>r \<in> set (enabledRanges en sts fin ps i). atOr sts i fin \<le> fst r)"
proof (induction ps arbitrary: i)
  case Nil
  then show ?case by simp
next
  case (Cons p ps)
  have len: "length sts = Suc i + length ps" using Cons.prems by simp
  note IH = Cons.IH[OF len]
  have i: "i < length sts" using Cons.prems by simp
  have step: "sts ! i \<le> atOr sts (Suc i) fin"
  proof (cases "Suc i < length sts")
    case True
    then show ?thesis using sorted_nth_mono[OF assms(1), of i "Suc i"] by (simp add: atOr_def)
  next
    case False
    then show ?thesis using assms(2) i by (simp add: atOr_def)
  qed
  show ?case
  proof (cases "en p")
    case False
    with IH step i show ?thesis by (auto simp: atOr_def)
  next
    case True
    have "chain ((atOr sts i 0, atOr sts (Suc i) fin) # enabledRanges en sts fin ps (Suc i))"
      using IH step i by (intro chainI) (auto simp: atOr_def)
    moreover have "\<forall>r \<in> set (enabledRanges en sts fin ps (Suc i)). atOr sts i fin \<le> fst r"
      using IH step i by (auto simp: atOr_def)
    ultimately show ?thesis using True i by (simp add: atOr_def)
  qed
qed

lemma Collect_Suc_split:
  "{f j | j. j < Suc n \<and> Q j} =
     (if Q 0 then {f 0} else {}) \<union> {f (Suc j) | j. j < n \<and> Q (Suc j)}"
  by (auto simp: less_Suc_eq_0_disj)

lemma enabledRanges_set:
  "set (enabledRanges en sts fin ps i) =
     {(atOr sts (i + j) 0, atOr sts (i + j + 1) fin) | j. j < length ps \<and> en (ps ! j)}"
proof (induction ps arbitrary: i)
  case Nil
  then show ?case by simp
next
  case (Cons p ps)
  have "{(atOr sts (i + j) 0, atOr sts (i + j + 1) fin) | j.
            j < length (p # ps) \<and> en ((p # ps) ! j)} =
        (if en p then {(atOr sts i 0, atOr sts (i + 1) fin)} else {}) \<union>
        {(atOr sts (Suc i + j) 0, atOr sts (Suc i + j + 1) fin) | j. j < length ps \<and> en (ps ! j)}"
    using Collect_Suc_split[of "\<lambda>j. (atOr sts (i + j) 0, atOr sts (i + j + 1) fin)"
        "length ps" "\<lambda>j. en ((p # ps) ! j)"]
    by simp
  then show ?case
    using Cons.IH[of "Suc i"] by auto
qed

lemma mergeRanges_covers:
  "chain rs \<Longrightarrow>
     (\<Union>g \<in> set (map groupOfRange (mergeRanges rs)). indicesOfGroup g) =
     (\<Union>r \<in> set rs. {fst r ..< snd r})"
proof (cases rs)
  case Nil
  then show ?thesis by simp
next
  case (Cons r rs')
  assume "chain rs"
  then have "chain ((fst r, snd r) # rs')" using Cons by simp
  from mergeInto_covers[OF this] Cons show ?thesis
    by (simp add: indicesOfGroup_groupOfRange)
qed

lemma mergeRanges_separated:
  "chain rs \<Longrightarrow> separated (map groupOfRange (mergeRanges rs))"
proof (cases rs)
  case Nil
  then show ?thesis by simp
next
  case (Cons r rs')
  assume "chain rs"
  then have "chain ((fst r, snd r) # rs')" using Cons by simp
  from mergeInto_separated[OF this] Cons show ?thesis by simp
qed

text \<open>
  C4. For an object that reaches the regeneration of its draw groups (its technique's
  \<^verbatim>\<open>enabled\<close> is an expression, the zoom level is inside the technique's range, the feature
  data has \<^verbatim>\<open>objInfos\<close> and \<^verbatim>\<open>starts\<close>, and the geometry is a buffer geometry) and whose
  \<^verbatim>\<open>starts\<close> has one entry per feature, in non-decreasing order and not beyond the final
  index: the function returns normally; the old groups are dropped and the new group list is
  the list of the index ranges of the enabled features, in feature order, where a range that
  starts at the end of the previous group is merged into it; the indices covered by the
  groups are exactly the indices \<open>k\<close> with \<open>starts[i] \<le> k < starts[i+1]\<close> for an enabled
  feature \<open>i\<close> (the final index standing in for \<open>starts[i+1]\<close> at the last feature);
  consecutive groups never touch, so adjacent enabled ranges always end up in one group;
  and the returned flag is false exactly when the new group list is empty.
\<close>

theorem processTileObjectFeatures_groups:
  assumes tech: "userData_technique object = Some t"
    and minz: "\<forall>z. rt_minZoomLevel t = Some z \<longrightarrow> z \<le> zoomLevel"
    and maxz: "\<forall>z. rt_maxZoomLevel t = Some z \<longrightarrow> zoomLevel < z"
    and en: "rt_enabled t = Some (Expr f)"
    and feat: "userData_feature object = Some feature"
    and infos: "fd_objInfos feature = Some infos"
    and sts: "fd_starts feature = Some sts"
    and geo: "to_geometry object = Some g"
    and len: "length sts = length infos"
    and sorted: "sorted sts"
    and bound: "\<forall>s\<in>set sts. s \<le> finalIndexOf g"
  shows "\<exists>gs.
      processTileObjectFeatures getFeatureId getFeatureState zoomLevel object =
        Inr (gs \<noteq> [], object\<lparr>to_geometry := Some (g\<lparr>bg_groups := gs\<rparr>)\<rparr>) \<and>
      gs = map groupOfRange
             (mergeRanges
                (enabledRanges (featureEnabled getFeatureId getFeatureState (Expr f)) sts
                   (finalIndexOf g) infos 0)) \<and>
      (\<Union>grp \<in> set gs. indicesOfGroup grp) =
        {k. \<exists>i < length infos.
              featureEnabled getFeatureId getFeatureState (Expr f) (infos ! i) \<and>
              sts ! i \<le> k \<and>
              k < (if Suc i < length sts then sts ! Suc i else finalIndexOf g)} \<and>
      separated gs"
proof -
  let ?en = "featureEnabled getFeatureId getFeatureState (Expr f)"
  let ?rs = "enabledRanges ?en sts (finalIndexOf g) infos 0"
  let ?gs = "map groupOfRange (mergeRanges ?rs)"
  have minz': "\<not> (case rt_minZoomLevel t of Some z \<Rightarrow> zoomLevel < z | None \<Rightarrow> False)"
    using minz by (cases "rt_minZoomLevel t") auto
  have maxz': "\<not> (case rt_maxZoomLevel t of Some z \<Rightarrow> zoomLevel \<ge> z | None \<Rightarrow> False)"
    using maxz by (cases "rt_maxZoomLevel t") auto
  have run: "processTileObjectFeatures getFeatureId getFeatureState zoomLevel object =
        Inr (?gs \<noteq> [], object\<lparr>to_geometry := Some (g\<lparr>bg_groups := ?gs\<rparr>)\<rparr>)"
    using minz' maxz'
    by (simp add: processTileObjectFeatures_def tech en feat infos sts geo forEachFeature_start Let_def)
  have ch: "chain ?rs"
    using enabledRanges_chain[OF sorted bound, of 0 infos ?en] len by simp
  have "(\<Union>r \<in> set ?rs. {fst r ..< snd r}) =
        {k. \<exists>i < length infos. ?en (infos ! i) \<and> atOr sts i 0 \<le> k \<and>
              k < atOr sts (i + 1) (finalIndexOf g)}"
    by (fastforce simp: enabledRanges_set)
  also have "\<dots> = {k. \<exists>i < length infos. ?en (infos ! i) \<and> sts ! i \<le> k \<and>
              k < (if Suc i < length sts then sts ! Suc i else finalIndexOf g)}"
    using len by (intro Collect_cong ex_cong1 conj_cong refl) (simp_all add: atOr_def)
  finally have "(\<Union>r \<in> set ?rs. {fst r ..< snd r}) =
        {k. \<exists>i < length infos. ?en (infos ! i) \<and> sts ! i \<le> k \<and>
              k < (if Suc i < length sts then sts ! Suc i else finalIndexOf g)}" .
  with mergeRanges_covers[OF ch] have cover: "(\<Union>grp \<in> set ?gs. indicesOfGroup grp) =
        {k. \<exists>i < length infos. ?en (infos ! i) \<and> sts ! i \<le> k \<and>
              k < (if Suc i < length sts then sts ! Suc i else finalIndexOf g)}"
    by simp
  from run cover mergeRanges_separated[OF ch] show ?thesis by blast
qed

theorem processTileObjectFeatures_groups_witness:
  "processTileObjectFeatures exampleFeatureId exampleFeatureState 10 exampleObject =
     Inr (True,
          exampleObject\<lparr>to_geometry := Some (exampleGeometry\<lparr>bg_groups :=
            [\<lparr>dg_start = 0, dg_count = 6, dg_materialIndex = 0\<rparr>,
             \<lparr>dg_start = 9, dg_count = 3, dg_materialIndex = 0\<rparr>]\<rparr>)\<rparr>)"
proof -
  have h1: "userData_technique exampleObject = Some exampleTechnique"
    by (simp add: exampleObject_def)
  have h2: "\<forall>z. rt_minZoomLevel exampleTechnique = Some z \<longrightarrow> z \<le> 10"
    by (simp add: exampleTechnique_def)
  have h3: "\<forall>z. rt_maxZoomLevel exampleTechnique = Some z \<longrightarrow> 10 < z"
    by (simp add: exampleTechnique_def)
  have h4: "rt_enabled exampleTechnique = Some (Expr exampleEnabled)"
    by (simp add: exampleTechnique_def)
  have h5: "userData_feature exampleObject = Some exampleFeatureData"
    by (simp add: exampleObject_def)
  have h6: "fd_objInfos exampleFeatureData =
      Some [FeatureNumber 1, FeatureNumber 2, FeatureNumber 3, FeatureNumber 4]"
    by (simp add: exampleFeatureData_def)
  have h7: "fd_starts exampleFeatureData = Some [0, 3, 6, 9]"
    by (simp add: exampleFeatureData_def)
  have h8: "to_geometry exampleObject = Some exampleGeometry"
    by (simp add: exampleObject_def)
  have h9: "length [0, 3, 6, 9 :: int] =
      length [FeatureNumber 1, FeatureNumber 2, FeatureNumber 3, FeatureNumber 4]"
    by simp
  have h10: "sorted [0, 3, 6, 9 :: int]" by simp
  have h11: "\<forall>s\<in>set [0, 3, 6, 9 :: int]. s \<le> finalIndexOf exampleGeometry"
    by (simp add: finalIndexOf_def exampleGeometry_def)
  from processTileObjectFeatures_groups[OF h1 h2 h3 h4 h5 h6 h7 h8 h9 h10 h11,
      of exampleFeatureId exampleFeatureState]
  obtain gs where
    run: "processTileObjectFeatures exampleFeatureId exampleFeatureState 10 exampleObject =
        Inr (gs \<noteq> [], exampleObject\<lparr>to_geometry := Some (exampleGeometry\<lparr>bg_groups := gs\<rparr>)\<rparr>)"
    and gs: "gs = map groupOfRange
             (mergeRanges
                (enabledRanges (featureEnabled exampleFeatureId exampleFeatureState
                   (Expr exampleEnabled)) [0, 3, 6, 9]
                   (finalIndexOf exampleGeometry)
                   [FeatureNumber 1, FeatureNumber 2, FeatureNumber 3, FeatureNumber 4] 0))"
    by blast
  have "gs = [\<lparr>dg_start = 0, dg_count = 6, dg_materialIndex = 0\<rparr>,
             \<lparr>dg_start = 9, dg_count = 3, dg_materialIndex = 0\<rparr>]"
    unfolding gs
    by (simp add: featureEnabled_def exampleFeatureId_def exampleFeatureState_def
        exampleEnabled_def finalIndexOf_def exampleGeometry_def atOr_def groupOfRange_def)
  with run show ?thesis by simp
qed

section \<open>Properties of the opaque sort\<close>

lemma painterSortStable_dataSource:
  "dataSourceOrderOf a = Some da \<Longrightarrow> dataSourceOrderOf b = Some db \<Longrightarrow> da \<noteq> db \<Longrightarrow>
     painterSortStable ground a b = da - db"
  by (simp add: painterSortStable_def)

lemma painterSortStable_level:
  "\<not> byDataSourceOrder a b \<Longrightarrow> byLevel ground a b \<Longrightarrow>
     levelOf a = Some la \<Longrightarrow> levelOf b = Some lb \<Longrightarrow>
     painterSortStable ground a b = la - lb"
  by (auto simp: painterSortStable_def byDataSourceOrder_def byLevel_def Let_def)

lemma painterSortStable_rest:
  "\<not> byDataSourceOrder a b \<Longrightarrow> \<not> byLevel ground a b \<Longrightarrow>
     painterSortStable ground a b = stableSort a b"
  by (auto simp: painterSortStable_def byDataSourceOrder_def byLevel_def Let_def)

lemma stableSort_morton:
  "ri_groupOrder a = ri_groupOrder b \<Longrightarrow> ri_renderOrder a = ri_renderOrder b \<Longrightarrow>
     ud_tileKey_mortonCode (ri_object a) = Some ka \<Longrightarrow>
     ud_tileKey_mortonCode (ri_object b) = Some kb \<Longrightarrow> ka \<noteq> kb \<Longrightarrow>
     stableSort a b = ka - kb"
  by (simp add: stableSort_def)

lemma stableSort_ids:
  "ri_groupOrder a = ri_groupOrder b \<Longrightarrow> ri_renderOrder a = ri_renderOrder b \<Longrightarrow>
     ud_tileKey_mortonCode (ri_object a) = None \<or> ud_tileKey_mortonCode (ri_object b) = None \<or>
     ud_tileKey_mortonCode (ri_object a) = ud_tileKey_mortonCode (ri_object b) \<Longrightarrow>
     stableSort a b =
         (if p_ref (ri_program a) \<noteq> p_ref (ri_program b)
          then p_id (ri_program a) - p_id (ri_program b)
          else if ri_material_id a \<noteq> ri_material_id b then ri_material_id a - ri_material_id b
          else if ri_z a \<noteq> ri_z b then ri_z a - ri_z b
          else ri_id a - ri_id b)"
  by (auto simp: stableSort_def)

text \<open>
  C6. The opaque sort \<^verbatim>\<open>painterSortStable\<close>. When both items have a data source order and
  the two differ, the result is their difference. Otherwise, when neither item has the
  ground render order, both have a level, the levels differ and neither is tagged
  \<^verbatim>\<open>building\<close>, the result is the difference of the levels. In every remaining case the
  result is that of \<^verbatim>\<open>stableSort\<close>, which is the difference of the group orders when they
  differ, else of the render orders when they differ, else of the morton codes of the two
  tile keys when both are present and differ, and only then depends on the program, the
  material id, the depth and the object id, in this order.
\<close>

theorem painterSortStable_order:
  "(\<forall>da db. dataSourceOrderOf a = Some da \<and> dataSourceOrderOf b = Some db \<and> da \<noteq> db \<longrightarrow>
       painterSortStable ground a b = da - db) \<and>
   (\<forall>la lb. \<not> byDataSourceOrder a b \<and> byLevel ground a b \<and>
        levelOf a = Some la \<and> levelOf b = Some lb \<longrightarrow>
       painterSortStable ground a b = la - lb) \<and>
   (\<not> byDataSourceOrder a b \<and> \<not> byLevel ground a b \<longrightarrow>
       painterSortStable ground a b = stableSort a b) \<and>
   (ri_groupOrder a \<noteq> ri_groupOrder b \<longrightarrow> stableSort a b = ri_groupOrder a - ri_groupOrder b) \<and>
   (ri_groupOrder a = ri_groupOrder b \<and> ri_renderOrder a \<noteq> ri_renderOrder b \<longrightarrow>
       stableSort a b = ri_renderOrder a - ri_renderOrder b) \<and>
   (\<forall>ka kb. ri_groupOrder a = ri_groupOrder b \<and> ri_renderOrder a = ri_renderOrder b \<and>
        ud_tileKey_mortonCode (ri_object a) = Some ka \<and>
        ud_tileKey_mortonCode (ri_object b) = Some kb \<and> ka \<noteq> kb \<longrightarrow>
       stableSort a b = ka - kb) \<and>
   (ri_groupOrder a = ri_groupOrder b \<and> ri_renderOrder a = ri_renderOrder b \<and>
    (ud_tileKey_mortonCode (ri_object a) = None \<or> ud_tileKey_mortonCode (ri_object b) = None \<or>
     ud_tileKey_mortonCode (ri_object a) = ud_tileKey_mortonCode (ri_object b)) \<longrightarrow>
       stableSort a b =
         (if p_ref (ri_program a) \<noteq> p_ref (ri_program b)
          then p_id (ri_program a) - p_id (ri_program b)
          else if ri_material_id a \<noteq> ri_material_id b then ri_material_id a - ri_material_id b
          else if ri_z a \<noteq> ri_z b then ri_z a - ri_z b
          else ri_id a - ri_id b))"
proof (intro conjI allI impI)
  fix da db
  assume "dataSourceOrderOf a = Some da \<and> dataSourceOrderOf b = Some db \<and> da \<noteq> db"
  then show "painterSortStable ground a b = da - db"
    by (simp add: painterSortStable_dataSource)
next
  fix la lb
  assume "\<not> byDataSourceOrder a b \<and> byLevel ground a b \<and>
        levelOf a = Some la \<and> levelOf b = Some lb"
  then show "painterSortStable ground a b = la - lb"
    by (simp add: painterSortStable_level)
next
  assume "\<not> byDataSourceOrder a b \<and> \<not> byLevel ground a b"
  then show "painterSortStable ground a b = stableSort a b"
    by (simp add: painterSortStable_rest)
next
  assume "ri_groupOrder a \<noteq> ri_groupOrder b"
  then show "stableSort a b = ri_groupOrder a - ri_groupOrder b"
    by (simp add: stableSort_def)
next
  assume "ri_groupOrder a = ri_groupOrder b \<and> ri_renderOrder a \<noteq> ri_renderOrder b"
  then show "stableSort a b = ri_renderOrder a - ri_renderOrder b"
    by (simp add: stableSort_def)
next
  fix ka kb
  assume "ri_groupOrder a = ri_groupOrder b \<and> ri_renderOrder a = ri_renderOrder b \<and>
        ud_tileKey_mortonCode (ri_object a) = Some ka \<and>
        ud_tileKey_mortonCode (ri_object b) = Some kb \<and> ka \<noteq> kb"
  then show "stableSort a b = ka - kb"
    by (simp add: stableSort_morton)
next
  assume "ri_groupOrder a = ri_groupOrder b \<and> ri_renderOrder a = ri_renderOrder b \<and>
    (ud_tileKey_mortonCode (ri_object a) = None \<or> ud_tileKey_mortonCode (ri_object b) = None \<or>
     ud_tileKey_mortonCode (ri_object a) = ud_tileKey_mortonCode (ri_object b))"
  then show "stableSort a b =
         (if p_ref (ri_program a) \<noteq> p_ref (ri_program b)
          then p_id (ri_program a) - p_id (ri_program b)
          else if ri_material_id a \<noteq> ri_material_id b then ri_material_id a - ri_material_id b
          else if ri_z a \<noteq> ri_z b then ri_z a - ri_z b
          else ri_id a - ri_id b)"
    using stableSort_ids by blast
qed

theorem painterSortStable_order_witness:
  "painterSortStable (- 9007199254740991)
     (exampleItem 1 14 100 5 [] 7) (exampleItem 2 14 100 5 [] 7) = - 1 \<and>
   painterSortStable (- 9007199254740991)
     (exampleItem 1 14 100 5 [''road''] 7) (exampleItem 1 15 100 4 [''water''] 3) = - 1 \<and>
   painterSortStable (- 9007199254740991)
     (exampleItem 1 14 100 5 [] 7) (exampleItem 1 14 100 9 [] 3) = - 4 \<and>
   painterSortStable (- 9007199254740991)
     (exampleItem 1 14 100 5 [''building''] 7) (exampleItem 1 15 100 9 [] 3) = - 4"
proof -
  have a: "painterSortStable (- 9007199254740991)
     (exampleItem 1 14 100 5 [] 7) (exampleItem 2 14 100 5 [] 7) = - 1"
    using painterSortStable_order[of "exampleItem 1 14 100 5 [] 7" "exampleItem 2 14 100 5 [] 7"
        "- 9007199254740991"]
    by (simp add: dataSourceOrderOf_def exampleItem_def)
  have b: "painterSortStable (- 9007199254740991)
     (exampleItem 1 14 100 5 [''road''] 7) (exampleItem 1 15 100 4 [''water''] 3) = - 1"
    using painterSortStable_order[of "exampleItem 1 14 100 5 [''road''] 7"
        "exampleItem 1 15 100 4 [''water''] 3" "- 9007199254740991"]
    by (simp add: dataSourceOrderOf_def levelOf_def isBuilding_def byDataSourceOrder_def
        byLevel_def exampleItem_def)
  have c: "painterSortStable (- 9007199254740991)
     (exampleItem 1 14 100 5 [] 7) (exampleItem 1 14 100 9 [] 3) = - 4"
    using painterSortStable_order[of "exampleItem 1 14 100 5 [] 7"
        "exampleItem 1 14 100 9 [] 3" "- 9007199254740991"]
    by (simp add: dataSourceOrderOf_def levelOf_def isBuilding_def byDataSourceOrder_def
        byLevel_def exampleItem_def)
  have d: "painterSortStable (- 9007199254740991)
     (exampleItem 1 14 100 5 [''building''] 7) (exampleItem 1 15 100 9 [] 3) = - 4"
    using painterSortStable_order[of "exampleItem 1 14 100 5 [''building''] 7"
        "exampleItem 1 15 100 9 [] 3" "- 9007199254740991"]
    by (simp add: dataSourceOrderOf_def levelOf_def isBuilding_def byDataSourceOrder_def
        byLevel_def exampleItem_def)
  from a b c d show ?thesis by simp
qed

section \<open>Properties of the road picker\<close>








section \<open>Properties of the final geometry creation\<close>

lemma createGeometry_invalid:
  "mb_positions mb \<noteq> [] \<Longrightarrow>
   cfg_techniques cfg = None \<or> (\<exists>ts. cfg_techniques cfg = Some ts \<and> length ts \<le> idx) \<Longrightarrow>
   createGeometry cfg idx mb e = Inl (Error ''Invalid technique index'')"
  by (auto simp: createGeometry_def)

lemma pushAttribute_errors:
  "pushAttribute active xs cond name n geo = Inl err \<Longrightarrow> active \<and> err = AssertionError"
  by (auto simp: pushAttribute_def split: if_splits)

lemma meshGeometryOf_errors:
  "meshGeometryOf cfg buffers = Inl err \<Longrightarrow> cfg_assertActive cfg \<and> err = AssertionError"
  unfolding meshGeometryOf_def Let_def thenDo_def
  by (auto split: sum.splits dest: pushAttribute_errors)

lemma createGeometry_errors:
  "createGeometry cfg idx mb e = Inl err \<Longrightarrow>
     err = Error ''Invalid technique index'' \<or> (cfg_assertActive cfg \<and> err = AssertionError)"
  unfolding createGeometry_def Let_def thenDo_def
  by (auto split: if_splits option.splits sum.splits dest: meshGeometryOf_errors)

lemma forEachMeshBuffers_invalid:
  "(idx, mb) \<in> set entries \<Longrightarrow> mb_positions mb \<noteq> [] \<Longrightarrow>
   cfg_techniques cfg = None \<or> (\<exists>ts. cfg_techniques cfg = Some ts \<and> length ts \<le> idx) \<Longrightarrow>
   \<exists>err. forEachMeshBuffers cfg entries e = Inl err \<and>
     (err = Error ''Invalid technique index'' \<or> (cfg_assertActive cfg \<and> err = AssertionError))"
proof (induction entries arbitrary: e)
  case Nil
  then show ?case by simp
next
  case (Cons entry entries)
  obtain k b where entry: "entry = (k, b)" by (cases entry)
  show ?case
  proof (cases "createGeometry cfg k b e")
    case (Inl err)
    with createGeometry_errors[OF Inl] entry show ?thesis by simp
  next
    case (Inr e')
    have "(idx, mb) \<noteq> (k, b)"
      using createGeometry_invalid[OF Cons.prems(2,3), of e] Inr by auto
    then have "(idx, mb) \<in> set entries" using Cons.prems(1) entry by auto
    from Cons.IH[OF this Cons.prems(2,3), of e'] Inr entry show ?thesis by simp
  qed
qed

text \<open>
  C8. If the emitter holds, under a technique index, mesh buffers with at least one position,
  and the style set evaluator has no technique catalog or the index is not below the
  catalog's length, then \<^verbatim>\<open>createGeometries\<close> throws, and so does \<^verbatim>\<open>getDecodedTile\<close>, which
  has no handler around it: the decode of the tile yields no decoded tile. The error is
  \<^verbatim>\<open>Invalid technique index\<close>, unless assertions are active and the buffers of an earlier
  technique index fail one of the length assertions first.
\<close>

theorem createGeometries_invalid_technique_index:
  assumes "(idx, mb) \<in> set (m_meshBuffers e)"
    and "mb_positions mb \<noteq> []"
    and "cfg_techniques cfg = None \<or> (\<exists>ts. cfg_techniques cfg = Some ts \<and> length ts \<le> idx)"
  shows "\<exists>err. createGeometries cfg e = Inl err \<and> getDecodedTile cfg e = Inl err \<and>
     (err = Error ''Invalid technique index'' \<or> (cfg_assertActive cfg \<and> err = AssertionError))"
  using forEachMeshBuffers_invalid[OF assms, of e]
  by (auto simp: createGeometries_def getDecodedTile_def)

theorem createGeometries_invalid_technique_index_witness:
  "createGeometries exampleConfig (triangleEmitter 1) = Inl (Error ''Invalid technique index'') \<and>
   getDecodedTile exampleConfig (triangleEmitter 1) = Inl (Error ''Invalid technique index'')"
proof -
  have h1: "(1, triangleBuffers) \<in> set (m_meshBuffers (triangleEmitter 1))"
    by (simp add: triangleEmitter_def emptyEmitter_def)
  have h2: "mb_positions triangleBuffers \<noteq> []"
    by (simp add: triangleBuffers_def)
  have h3: "cfg_techniques exampleConfig = None \<or>
      (\<exists>ts. cfg_techniques exampleConfig = Some ts \<and> length ts \<le> 1)"
    by (simp add: exampleConfig_def)
  have h4: "\<not> cfg_assertActive exampleConfig"
    by (simp add: exampleConfig_def)
  from createGeometries_invalid_technique_index[OF h1 h2 h3] h4 show ?thesis
    by auto
qed

text \<open>The same emitter under the technique index 0 of the catalog decodes to one polygon
  geometry with the default group.\<close>

lemma getDecodedTile_triangle:
  "map_sum id (\<lambda>(d, e). (map geo_type (dec_geometries d), map geo_groups (dec_geometries d)))
     (getDecodedTile exampleConfig (triangleEmitter 0)) =
   Inr ([Polygon], [[\<lparr>g_start = 0, g_count = 3, g_technique = 0, g_featureId = None,
                      g_renderOrderOffset = None\<rparr>]])"
  by (simp add: getDecodedTile_def createGeometries_def createGeometry_def triangleEmitter_def
      emptyEmitter_def exampleConfig_def fillTechnique_def triangleBuffers_def newMeshBuffers_def
      isTextTechnique_def isPoiTechnique_def withDefaultGroup_def meshGeometryOf_def
      pushAttribute_def thenDo_def processLines_def processSimpleLines_def Let_def)

section \<open>Properties of the short-label filter\<close>

lemma worldLine_Cons:
  "worldLine h (pos # polyline) =
     fst (h_toWorld h pos) # fst (snd (h_toWorld h pos)) # snd (snd (h_toWorld h pos)) #
       worldLine h polyline"
  by (simp add: worldLine_def split: prod.splits)

lemma Min_insert_if:
  fixes a x :: real
  assumes "finite S"
  shows "Min (insert (if x < a then x else a) S) = Min (insert a (insert x S))"
proof -
  have e: "(if x < a then x else a) = min x a" by (simp add: min_def)
  show ?thesis
  proof (cases "S = {}")
    case True
    then show ?thesis unfolding e by (simp add: min.commute)
  next
    case False
    have "Min (insert (min x a) S) = min (min x a) (Min S)"
      using assms False by (rule Min_insert)
    moreover have "Min (insert a (insert x S)) = min a (min x (Min S))"
      using assms False by (simp only: Min_insert finite_insert insert_not_empty not_False_eq_True)
    ultimately show ?thesis unfolding e by (simp only: min.assoc min.commute min.left_commute)
  qed
qed

lemma Max_insert_if:
  fixes a x :: real
  assumes "finite S"
  shows "Max (insert (if x > a then x else a) S) = Max (insert a (insert x S))"
proof -
  have e: "(if x > a then x else a) = max x a" by (simp add: max_def)
  show ?thesis
  proof (cases "S = {}")
    case True
    then show ?thesis unfolding e by (simp add: max.commute)
  next
    case False
    have "Max (insert (max x a) S) = max (max x a) (Max S)"
      using assms False by (rule Max_insert)
    moreover have "Max (insert a (insert x S)) = max a (max x (Max S))"
      using assms False by (simp only: Max_insert finite_insert insert_not_empty not_False_eq_True)
    ultimately show ?thesis unfolding e by (simp only: max.assoc max.commute max.left_commute)
  qed
qed

lemma boundingBoxLoop_worldLine:
  "boundingBoxLoop (worldLine h polyline) (a, b, c, d) =
     (Min (insert a (set (worldXs h polyline))), Max (insert b (set (worldXs h polyline))),
      Min (insert c (set (worldYs h polyline))), Max (insert d (set (worldYs h polyline))))"
proof (induction polyline arbitrary: a b c d)
  case Nil
  then show ?case by (simp add: worldLine_def worldXs_def worldYs_def)
next
  case (Cons pos polyline)
  let ?x = "fst (h_toWorld h pos)" and ?y = "fst (snd (h_toWorld h pos))"
  have xs: "worldXs h (pos # polyline) = ?x # worldXs h polyline"
    and ys: "worldYs h (pos # polyline) = ?y # worldYs h polyline"
    by (simp_all add: worldXs_def worldYs_def)
  show ?case
    by (simp only: worldLine_Cons boundingBoxLoop.simps Cons.IH xs ys list.set
        Min_insert_if Max_insert_if finite_set)
qed

lemma boundingBoxOf_worldLine: "boundingBoxOf (worldLine h polyline) = worldBox h polyline"
  by (simp only: boundingBoxOf_def boundingBoxLoop_worldLine worldBox_def)

lemma worldBox_Nil:
  "worldBox h [] = (MAX_SAFE_INTEGER, MIN_SAFE_INTEGER, MAX_SAFE_INTEGER, MIN_SAFE_INTEGER)"
  by (simp add: worldBox_def worldXs_def worldYs_def)


lemma minTileSpace_threshold: "minTileSpace h cfg text = labelThreshold h cfg (length text)"
  by (simp add: minTileSpace_def labelThreshold_def MIN_AVERAGE_CHAR_WIDTH_def
      SIZE_ESTIMATION_FACTOR_def Let_def)

lemma longEnough_fitsLabel:
  "longEnough h (minTileSpace h cfg text) (worldLine h polyline) \<longleftrightarrow>
     fitsLabel h cfg (length text) polyline"
  by (simp add: longEnough_def fitsLabel_def squaredDiagonal_def boundingBoxOf_worldLine
      minTileSpace_threshold Let_def split: prod.splits)

lemma extrudedLineBranch_textPaths:
  "m_textPathGeometries (extrudedLineBranch h cfg env featureId lines technique e) =
     m_textPathGeometries e"
  by (simp add: extrudedLineBranch_def Let_def split: prod.splits option.splits)

lemma labelBranch_textPaths:
  "m_textPathGeometries (labelBranch h cfg env featureId lines technique e) =
     m_textPathGeometries e @ textPathsOfStep h cfg env featureId lines (Some technique)"
  by (simp add: labelBranch_def textPathsOfStep_def Let_def split: option.splits)

lemma lineTechniqueStep_textPaths:
  "m_textPathGeometries (lineTechniqueStep h cfg env featureId lines uvs techniqueOpt e) =
     m_textPathGeometries e @ textPathsOfStep h cfg env featureId lines techniqueOpt"
proof (cases techniqueOpt)
  case None
  then show ?thesis by (simp add: lineTechniqueStep_def textPathsOfStep_def)
next
  case (Some technique)
  consider (line) "t_name technique \<in> {''line'', ''solid-line'', ''dashed-line''}"
    | (label) "t_name technique \<notin> {''line'', ''solid-line'', ''dashed-line''}"
        "isTextTechnique technique \<or> isPoiTechnique technique \<or> isLineMarkerTechnique technique"
    | (other) "t_name technique \<notin> {''line'', ''solid-line'', ''dashed-line''}"
        "\<not> (isTextTechnique technique \<or> isPoiTechnique technique \<or>
            isLineMarkerTechnique technique)"
    by blast
  then show ?thesis
  proof cases
    case line
    then have "\<not> isTextTechnique technique" by (auto simp: isTextTechnique_def)
    with line Some show ?thesis
      by (auto simp: lineTechniqueStep_def textPathsOfStep_def Let_def)
  next
    case label
    with Some show ?thesis
      by (simp add: lineTechniqueStep_def Let_def labelBranch_textPaths)
  next
    case other
    with Some show ?thesis
      by (simp add: lineTechniqueStep_def textPathsOfStep_def Let_def
          extrudedLineBranch_textPaths)
  qed
qed

lemma foldl_lineTechniqueStep_textPaths:
  "m_textPathGeometries
     (foldl (\<lambda>e1 technique. lineTechniqueStep h cfg env featureId lines uvs technique e1) e ts) =
   m_textPathGeometries e @ concat (map (textPathsOfStep h cfg env featureId lines) ts)"
  by (induction ts arbitrary: e) (simp_all add: lineTechniqueStep_textPaths)

lemma processFeatureCommon_textPaths:
  "m_textPathGeometries (processFeatureCommon env e) = m_textPathGeometries e"
  by (simp add: processFeatureCommon_def split: option.splits Value.splits)

lemma map_filter_worldLines:
  "map f (filter (\<lambda>aLine. longEnough h (minTileSpace h cfg text) aLine)
            (map (worldLine h) polylines)) =
   concat (map (\<lambda>polyline. if fitsLabel h cfg (length text) polyline
                            then [f (worldLine h polyline)] else []) polylines)"
  by (induction polylines) (simp_all add: longEnough_fitsLabel)

lemma textPathsOfStep_worldLines:
  assumes "m_skipShortLabels cfg"
  shows "textPathsOfStep h cfg env featureId (map (worldLine h) polylines) techniqueOpt =
     (case techniqueOpt of
        None \<Rightarrow> []
      | Some technique \<Rightarrow>
          if isTextTechnique technique
          then (case labelValue h env technique of
                  None \<Rightarrow> []
                | Some value \<Rightarrow>
                    concat (map (\<lambda>polyline.
                      if fitsLabel h cfg (length (String h value)) polyline
                      then [textPathGeometryOf h cfg env featureId (t_index technique)
                              (String h value) (worldLine h polyline)]
                      else []) polylines))
          else [])"
  using assms
  by (simp add: textPathsOfStep_def validLinesOf_def map_filter_worldLines
      split: option.splits)

lemma processLineFeature_textPaths:
  assumes skip: "m_skipShortLabels cfg"
  shows "(case texCoordsLoop h cfg ts (None, None) of
            Inl err \<Rightarrow>
              processLineFeature h cfg extents polylines env ts featureId e = Inl err
          | Inr st \<Rightarrow>
              (\<exists>e'. processLineFeature h cfg extents polylines env ts featureId e = Inr e' \<and>
                 m_textPathGeometries e' = m_textPathGeometries e @
                   concat (map (\<lambda>techniqueOpt.
                     case techniqueOpt of
                       None \<Rightarrow> []
                     | Some technique \<Rightarrow>
                         if isTextTechnique technique
                         then (case labelValue h env technique of
                                 None \<Rightarrow> []
                               | Some value \<Rightarrow>
                                   concat (map (\<lambda>polyline.
                                     if fitsLabel h cfg (length (String h value)) polyline
                                     then [textPathGeometryOf h cfg env featureId
                                             (t_index technique) (String h value)
                                             (worldLine h polyline)]
                                     else []) polylines))
                         else []) ts)))"
proof (cases "texCoordsLoop h cfg ts (None, None)")
  case (Inl err)
  then show ?thesis by (simp add: processLineFeature_def thenDo_def)
next
  case (Inr st)
  let ?lines = "map (worldLine h) polylines"
  let ?uvs = "map (lineUvs h (fst st) extents) polylines"
  let ?e' = "foldl (\<lambda>e1 technique.
                lineTechniqueStep h cfg env featureId ?lines ?uvs technique e1)
              (processFeatureCommon env e) ts"
  have run: "processLineFeature h cfg extents polylines env ts featureId e = Inr ?e'"
    by (simp add: processLineFeature_def thenDo_def Inr Let_def split_beta)
  have paths: "m_textPathGeometries ?e' = m_textPathGeometries e @
      concat (map (textPathsOfStep h cfg env featureId ?lines) ts)"
    by (simp only: foldl_lineTechniqueStep_textPaths processFeatureCommon_textPaths)
  have steps: "textPathsOfStep h cfg env featureId ?lines =
      (\<lambda>techniqueOpt.
         case techniqueOpt of
           None \<Rightarrow> []
         | Some technique \<Rightarrow>
             if isTextTechnique technique
             then (case labelValue h env technique of
                     None \<Rightarrow> []
                   | Some value \<Rightarrow>
                       concat (map (\<lambda>polyline.
                         if fitsLabel h cfg (length (String h value)) polyline
                         then [textPathGeometryOf h cfg env featureId
                                 (t_index technique) (String h value)
                                 (worldLine h polyline)]
                         else []) polylines))
             else [])"
    by (rule ext) (rule textPathsOfStep_worldLines[OF skip])
  show ?thesis
    unfolding Inr sum.case
    by (rule exI[of _ ?e']) (simp only: run paths steps simp_thms)
qed


text \<open>The examples, evaluated in binary64.\<close>

lemma bitLength_numeral: "bitLength (numeral k) = bitLength (numeral k div 2) + 1"
  by (subst bitLength.simps) simp

lemma bitLength_0: "bitLength 0 = 0"
  by (simp add: bitLength.simps [of 0])

lemma bitLength_1: "bitLength 1 = 1"
  by (simp add: bitLength.simps [of 1] bitLength_0)

lemmas binary64_eval = binary64_def exponentOf_def powerOfTwo_def bitLength_numeral
  bitLength_0 bitLength_1 Let_def

lemmas number_eval = numAdd_def numSub_def numNeg_def numMul_def numDiv_def numGe_def
  numMax_def signOf_def infinityOf_def

lemma example_round: "h_round exampleHelpers = binary64"
  by (simp add: exampleHelpers_def)

lemma example_tileSize: "tileSizeInMeters exampleHelpers exampleConfig = Finite 2048"
  by (simp add: tileSizeInMeters_def example_round exampleConfig_def number_eval binary64_eval)

lemma example_threshold: "labelThreshold exampleHelpers exampleConfig 7 = Finite 140"
  by (simp add: labelThreshold_def example_tileSize)
    (simp add: example_round exampleConfig_def number_eval binary64_eval)







lemma example_label:
  "labelValue exampleHelpers exampleEnv textTechnique = Some (Str ''Main St'')"
  by (simp add: labelValue_def textTechnique_def fillTechnique_def exampleHelpers_def
      lookup_def exampleEnv_def)

lemma example_techniques:
  "isTextTechnique textTechnique" "\<not> isTextTechnique lineTechnique"
  "t_index textTechnique = 3" "String exampleHelpers (Str ''Main St'') = ''Main St''"
  by (simp_all add: isTextTechnique_def textTechnique_def lineTechnique_def fillTechnique_def
      String_def)

lemma example_length: "length ''Main St'' = 7"
  by simp

lemma example_emitter: "m_textPathGeometries emptyEmitter = []"
  by (simp add: emptyEmitter_def)

lemmas example_eval = example_techniques example_label example_length example_emitter
  sum.case option.case if_True if_False list.map concat.simps append_Nil append_Nil2



text \<open>
  A line without points is tested with the box of the initial values of the loop, whose
  squared diagonal is \<open>2 ^ 109 - 2 ^ 57\<close> in binary64: the label fits and the line gets a
  text-path geometry with an empty path.
\<close>

lemma processLineFeature_empty_line:
  "squaredDiagonal exampleHelpers (worldBox exampleHelpers []) = Finite (2 ^ 109 - 2 ^ 57) \<and>
   (\<exists>e'. processLineFeature exampleHelpers exampleConfig 4096 [[]] exampleEnv
           [Some textTechnique] None emptyEmitter = Inr e' \<and>
         m_textPathGeometries e' =
           [textPathGeometryOf exampleHelpers exampleConfig exampleEnv None 3 ''Main St'' []])"
proof -
  have skip: "m_skipShortLabels exampleConfig" by (simp add: exampleConfig_def)
  have loop1: "texCoordsLoop exampleHelpers exampleConfig [Some textTechnique] (None, None) =
      Inr (None, None)"
    by (simp add: getComputeTexCoordsFunc_def getTextureCoordinateType_def exampleHelpers_def
        exampleConfig_def textTechnique_def fillTechnique_def isFillTechnique_def
        isSolidLineTechnique_def isDashedLineTechnique_def isExtrudedPolygonTechnique_def)
  have diagonal:
    "squaredDiagonal exampleHelpers (worldBox exampleHelpers []) = Finite (2 ^ 109 - 2 ^ 57)"
    by (simp add: worldBox_Nil squaredDiagonal_def example_round MAX_SAFE_INTEGER_def
        MIN_SAFE_INTEGER_def number_eval binary64_eval)
  have fits: "fitsLabel exampleHelpers exampleConfig 7 []"
    by (simp add: fitsLabel_def diagonal example_threshold)
      (simp add: example_round number_eval binary64_eval)
  have line: "worldLine exampleHelpers [] = []" by (simp add: worldLine_def)
  from processLineFeature_textPaths[OF skip, where h = exampleHelpers
      and ts = "[Some textTechnique]" and extents = 4096 and polylines = "[[]]"
      and env = exampleEnv and featureId = None and e = emptyEmitter]
  have "\<exists>e'. processLineFeature exampleHelpers exampleConfig 4096 [[]] exampleEnv
          [Some textTechnique] None emptyEmitter = Inr e' \<and>
        m_textPathGeometries e' =
          [textPathGeometryOf exampleHelpers exampleConfig exampleEnv None 3 ''Main St'' []]"
    by (simp only: loop1 example_eval fits line)
  with diagonal show ?thesis by blast
qed

text \<open>
  Rounding. In \<open>roundingConfig\<close> the exact threshold for seven characters is 140 / 3 and
  \<open>edgePolyline\<close> is shorter; in binary64 the threshold is the length of the line, the two
  squares are the same number, and the line gets its text-path geometry.
\<close>

lemma processLineFeature_rounding:
  "(6567749456581973 / 140737488355328 :: real)\<^sup>2 < (5 * 7 * (2048 / 768) * (1 / 2))\<^sup>2 \<and>
   labelThreshold exampleHelpers roundingConfig 7 =
     Finite (6567749456581973 / 140737488355328) \<and>
   squaredDiagonal exampleHelpers (worldBox exampleHelpers edgePolyline) =
     Finite (598622997344711 / 274877906944) \<and>
   numMul binary64 (labelThreshold exampleHelpers roundingConfig 7)
     (labelThreshold exampleHelpers roundingConfig 7) =
     Finite (598622997344711 / 274877906944) \<and>
   (\<exists>e'. processLineFeature exampleHelpers roundingConfig 4096 [edgePolyline] exampleEnv
           [Some textTechnique] None emptyEmitter = Inr e' \<and>
         m_textPathGeometries e' =
           [textPathGeometryOf exampleHelpers roundingConfig exampleEnv None 3 ''Main St''
              (worldLine exampleHelpers edgePolyline)])"
proof -
  have skip: "m_skipShortLabels roundingConfig"
    by (simp add: roundingConfig_def exampleConfig_def)
  have loop1: "texCoordsLoop exampleHelpers roundingConfig [Some textTechnique] (None, None) =
      Inr (None, None)"
    by (simp add: getComputeTexCoordsFunc_def getTextureCoordinateType_def exampleHelpers_def
        roundingConfig_def exampleConfig_def textTechnique_def fillTechnique_def
        isFillTechnique_def isSolidLineTechnique_def isDashedLineTechnique_def
        isExtrudedPolygonTechnique_def)
  have exact: "(6567749456581973 / 140737488355328 :: real)\<^sup>2 <
      (5 * 7 * (2048 / 768) * (1 / 2))\<^sup>2"
    by (simp add: power2_eq_square)
  have size: "tileSizeInMeters exampleHelpers roundingConfig = Finite 2048"
    using example_tileSize by (simp add: tileSizeInMeters_def roundingConfig_def)
  have mpp: "numDiv binary64 (Finite 2048) (Finite 768) =
      Finite (6004799503160661 / 2251799813685248)"
    by (simp add: number_eval binary64_eval)
  have screen: "cfg_tileSizeOnScreen roundingConfig = 768"
    by (simp add: roundingConfig_def)
  have thr: "labelThreshold exampleHelpers roundingConfig 7 =
      Finite (6567749456581973 / 140737488355328)"
    by (simp add: labelThreshold_def size screen example_round mpp)
      (simp add: number_eval binary64_eval)
  have box: "worldBox exampleHelpers edgePolyline =
      (0, 6567749456581973 / 140737488355328, 0, 0)"
    by (simp add: worldBox_def worldXs_def worldYs_def edgePolyline_def exampleHelpers_def
        MAX_SAFE_INTEGER_def MIN_SAFE_INTEGER_def)
  have diagonal: "squaredDiagonal exampleHelpers (worldBox exampleHelpers edgePolyline) =
      Finite (598622997344711 / 274877906944)"
    by (simp add: box squaredDiagonal_def example_round number_eval binary64_eval)
  have square: "numMul binary64 (labelThreshold exampleHelpers roundingConfig 7)
      (labelThreshold exampleHelpers roundingConfig 7) =
      Finite (598622997344711 / 274877906944)"
    by (simp add: thr) (simp add: number_eval binary64_eval)
  have fits: "fitsLabel exampleHelpers roundingConfig 7 edgePolyline"
    by (simp add: fitsLabel_def diagonal example_round square numGe_def)
  from processLineFeature_textPaths[OF skip, where h = exampleHelpers
      and ts = "[Some textTechnique]" and extents = 4096 and polylines = "[edgePolyline]"
      and env = exampleEnv and featureId = None and e = emptyEmitter]
  have "\<exists>e'. processLineFeature exampleHelpers roundingConfig 4096 [edgePolyline] exampleEnv
          [Some textTechnique] None emptyEmitter = Inr e' \<and>
        m_textPathGeometries e' =
          [textPathGeometryOf exampleHelpers roundingConfig exampleEnv None 3 ''Main St''
             (worldLine exampleHelpers edgePolyline)]"
    by (simp only: loop1 example_eval fits)
  with exact thr diagonal square show ?thesis by blast
qed

section \<open>Properties of the polygon triangulation\<close>

lemma logsFor_Nil: "logsFor ph vs [] []"
  by (simp add: logsFor_def)

lemma logsFor_append:
  "logsFor ph vs gs1 e1 \<Longrightarrow> logsFor ph vs gs2 e2 \<Longrightarrow> logsFor ph vs (gs1 @ gs2) (e1 @ e2)"
  by (auto simp: logsFor_def)

lemma tryRingGroup_cases:
  "tryRingGroup ph technique env extents vs g (b, ms) =
     (if triangulates ph vs g then goodStep ph technique env extents vs b g else b,
      ms @ snd (tryRingGroup ph technique env extents vs g (b, [])))"
  by (auto simp: tryRingGroup_def triangulates_def goodStep_def split: sum.splits prod.splits option.splits)

lemma tryRingGroup_logs:
  "logsFor ph vs [g] (snd (tryRingGroup ph technique env extents vs g (b, [])))"
  by (auto simp: tryRingGroup_def triangulates_def logsFor_def split: sum.splits prod.splits option.splits)

lemma foldl_tryRingGroup:
  "\<exists>errs. foldl (\<lambda>st g. tryRingGroup ph technique env extents vs g st) (b, ms) gs =
     (foldl (goodStep ph technique env extents vs) b (filter (triangulates ph vs) gs), ms @ errs) \<and>
     logsFor ph vs gs errs"
proof (induction gs arbitrary: b ms)
  case Nil
  then show ?case by (simp add: logsFor_Nil)
next
  case (Cons g gs)
  let ?b = "if triangulates ph vs g then goodStep ph technique env extents vs b g else b"
  let ?e = "snd (tryRingGroup ph technique env extents vs g (b, []))"
  from Cons.IH[of ?b "ms @ ?e"] obtain errs where
    run: "foldl (\<lambda>st g. tryRingGroup ph technique env extents vs g st) (?b, ms @ ?e) gs =
       (foldl (goodStep ph technique env extents vs) ?b (filter (triangulates ph vs) gs),
        (ms @ ?e) @ errs)"
    and logs: "logsFor ph vs gs errs"
    by blast
  have "logsFor ph vs ([g] @ gs) (?e @ errs)"
    by (rule logsFor_append[OF tryRingGroup_logs logs])
  moreover have "foldl (\<lambda>st g. tryRingGroup ph technique env extents vs g st) (b, ms) (g # gs) =
     (foldl (goodStep ph technique env extents vs) b (filter (triangulates ph vs) (g # gs)),
      ms @ ?e @ errs)"
    using run by (simp add: tryRingGroup_cases[of ph technique env extents vs g b ms])
  ultimately show ?case by auto
qed

lemma polygonStep_skipping:
  "\<exists>errs. polygonStep ph cfg technique techniqueIndex featureId env extents featureStride
            boundaryWalls (b, ms) polygon =
     (polygonStepSkipping ph cfg technique techniqueIndex featureId env extents featureStride
        boundaryWalls b polygon, ms @ errs) \<and>
     logsFor ph (featureStride + 2)
       (map (groupVertices featureStride extents boundaryWalls) (ringGroups polygon)) errs"
proof -
  let ?gs = "map (groupVertices featureStride extents boundaryWalls) (ringGroups polygon)"
  have fold_map: "foldl (\<lambda>st1 grp.
                     tryRingGroup ph technique env extents (featureStride + 2)
                       (groupVertices featureStride extents boundaryWalls grp) st1)
              (b, ms) (ringGroups polygon) =
        foldl (\<lambda>st g. tryRingGroup ph technique env extents (featureStride + 2) g st) (b, ms) ?gs"
    by (simp add: foldl_map)
  from foldl_tryRingGroup[of ph technique env extents "featureStride + 2" b ms ?gs]
  obtain errs where
    run: "foldl (\<lambda>st g. tryRingGroup ph technique env extents (featureStride + 2) g st) (b, ms) ?gs =
       (foldl (goodStep ph technique env extents (featureStride + 2)) b
          (filter (triangulates ph (featureStride + 2)) ?gs), ms @ errs)"
    and logs: "logsFor ph (featureStride + 2) ?gs errs"
    by blast
  have "polygonStep ph cfg technique techniqueIndex featureId env extents featureStride
            boundaryWalls (b, ms) polygon =
     (polygonStepSkipping ph cfg technique techniqueIndex featureId env extents featureStride
        boundaryWalls b polygon, ms @ errs)"
    unfolding polygonStep_def polygonStepSkipping_def fold_map run
    by (simp add: Let_def)
  with logs show ?thesis by blast
qed

lemma foldl_polygonStep:
  "\<exists>errs. foldl (polygonStep ph cfg technique techniqueIndex featureId env extents featureStride
                   boundaryWalls) (b, ms) polygons =
     (foldl (polygonStepSkipping ph cfg technique techniqueIndex featureId env extents
               featureStride boundaryWalls) b polygons, ms @ errs) \<and>
     logsFor ph (featureStride + 2)
       (allRingGroups featureStride extents boundaryWalls polygons) errs"
proof (induction polygons arbitrary: b ms)
  case Nil
  then show ?case by (simp add: allRingGroups_def logsFor_Nil)
next
  case (Cons polygon polygons)
  from polygonStep_skipping[of ph cfg technique techniqueIndex featureId env extents
      featureStride boundaryWalls b ms polygon]
  obtain e1 where
    s1: "polygonStep ph cfg technique techniqueIndex featureId env extents featureStride
            boundaryWalls (b, ms) polygon =
     (polygonStepSkipping ph cfg technique techniqueIndex featureId env extents featureStride
        boundaryWalls b polygon, ms @ e1)"
    and l1: "logsFor ph (featureStride + 2)
       (map (groupVertices featureStride extents boundaryWalls) (ringGroups polygon)) e1"
    by blast
  from Cons.IH[of "polygonStepSkipping ph cfg technique techniqueIndex featureId env extents
      featureStride boundaryWalls b polygon" "ms @ e1"]
  obtain e2 where
    s2: "foldl (polygonStep ph cfg technique techniqueIndex featureId env extents featureStride
                   boundaryWalls)
           (polygonStepSkipping ph cfg technique techniqueIndex featureId env extents
              featureStride boundaryWalls b polygon, ms @ e1) polygons =
     (foldl (polygonStepSkipping ph cfg technique techniqueIndex featureId env extents
               featureStride boundaryWalls)
        (polygonStepSkipping ph cfg technique techniqueIndex featureId env extents
              featureStride boundaryWalls b polygon) polygons, (ms @ e1) @ e2)"
    and l2: "logsFor ph (featureStride + 2)
       (allRingGroups featureStride extents boundaryWalls polygons) e2"
    by blast
  have "logsFor ph (featureStride + 2)
       (allRingGroups featureStride extents boundaryWalls (polygon # polygons)) (e1 @ e2)"
    using logsFor_append[OF l1 l2] by (simp add: allRingGroups_def)
  moreover have "foldl (polygonStep ph cfg technique techniqueIndex featureId env extents
                   featureStride boundaryWalls) (b, ms) (polygon # polygons) =
     (foldl (polygonStepSkipping ph cfg technique techniqueIndex featureId env extents
               featureStride boundaryWalls) b (polygon # polygons), ms @ e1 @ e2)"
    by (simp add: s1 s2)
  ultimately show ?case by blast
qed

text \<open>
  C5. \<^verbatim>\<open>applyPolygonTechnique\<close> on any polygons, with any triangulation and any footprint
  code, once the mesh buffers of the technique are found: every exception of the \<^verbatim>\<open>try\<close>
  block is handled where it arises, so the function returns and the caller goes on with the
  next technique and feature. The buffers it leaves are those of the run that skips the ring
  groups whose triangulation fails and processes all the others, of the same polygon and of
  the polygons after it, in order. The log grows by the handler's message only, at least once
  for every ring group whose triangulation fails and at most once per ring group.
\<close>

theorem applyPolygonTechnique_continues:
  assumes "findOrCreateMeshBuffers techniqueIndex
             (if isExtrudedPolygonTechnique technique then ExtrudedPolygon else Polygon)
             (m_meshBuffers e) = (Some meshBuffers, m1, msgs)"
  shows "\<exists>errors.
      applyPolygonTechnique h ph cfg polygons technique techniqueIndex featureId env extents e =
        e\<lparr>m_meshBuffers :=
             writeBack techniqueIndex
               (foldl (polygonStepSkipping ph cfg technique techniqueIndex featureId env extents
                         (featureStrideOf h cfg technique) (boundaryWallsOf technique))
                  meshBuffers polygons) m1,
           logged := logged e @ msgs @ errors\<rparr> \<and>
      set errors \<subseteq> {''cannot triangulate geometry''} \<and>
      length (filter (\<lambda>g. \<not> triangulates ph (featureStrideOf h cfg technique + 2) g)
                (allRingGroups (featureStrideOf h cfg technique) extents
                   (boundaryWallsOf technique) polygons)) \<le> length errors \<and>
      length errors \<le>
        length (allRingGroups (featureStrideOf h cfg technique) extents
                  (boundaryWallsOf technique) polygons)"
proof -
  let ?fs = "featureStrideOf h cfg technique" and ?bw = "boundaryWallsOf technique"
  from foldl_polygonStep[of ph cfg technique techniqueIndex featureId env extents ?fs ?bw
      meshBuffers "[]" polygons]
  obtain errors where
    run: "foldl (polygonStep ph cfg technique techniqueIndex featureId env extents ?fs ?bw)
            (meshBuffers, []) polygons =
          (foldl (polygonStepSkipping ph cfg technique techniqueIndex featureId env extents
                    ?fs ?bw) meshBuffers polygons, [] @ errors)"
    and logs: "logsFor ph (?fs + 2) (allRingGroups ?fs extents ?bw polygons) errors"
    by blast
  have "applyPolygonTechnique h ph cfg polygons technique techniqueIndex featureId env extents e =
        e\<lparr>m_meshBuffers :=
             writeBack techniqueIndex
               (foldl (polygonStepSkipping ph cfg technique techniqueIndex featureId env extents
                         ?fs ?bw) meshBuffers polygons) m1,
           logged := logged e @ msgs @ errors\<rparr>"
    unfolding applyPolygonTechnique_def Let_def assms
    by (simp add: run)
  with logs show ?thesis unfolding logsFor_def by blast
qed


text \<open>The example feature: the degenerate polygon is skipped, the square is emitted.\<close>

lemma example_buffers:
  "foldl (polygonStepSkipping examplePolygonHelpers exampleConfig fillTechnique 0 None [] 4096
            (featureStrideOf exampleHelpers exampleConfig fillTechnique)
            (boundaryWallsOf fillTechnique))
     (newMeshBuffers Polygon) [[degenerateRing], [squareRing]] =
   (newMeshBuffers Polygon)
     \<lparr>mb_positions := replicate 12 0, mb_indices := [0, 1, 2],
      mb_groups := [\<lparr>g_start = 0, g_count = 3, g_technique = 0, g_featureId = None,
                     g_renderOrderOffset = None\<rparr>]\<rparr>"
  by code_simp

lemma example_failures:
  "length (filter (\<lambda>g. \<not> triangulates examplePolygonHelpers
                            (featureStrideOf exampleHelpers exampleConfig fillTechnique + 2) g)
             (allRingGroups (featureStrideOf exampleHelpers exampleConfig fillTechnique) 4096
                (boundaryWallsOf fillTechnique) [[degenerateRing], [squareRing]])) = 1"
  by code_simp

lemma example_groups:
  "length (allRingGroups (featureStrideOf exampleHelpers exampleConfig fillTechnique) 4096
             (boundaryWallsOf fillTechnique) [[degenerateRing], [squareRing]]) = 2"
  by code_simp

theorem applyPolygonTechnique_continues_witness:
  "\<exists>errors.
      applyPolygonTechnique exampleHelpers examplePolygonHelpers exampleConfig
        [[degenerateRing], [squareRing]] fillTechnique 0 None [] 4096 emptyEmitter =
        emptyEmitter
          \<lparr>m_meshBuffers :=
             [(0, (newMeshBuffers Polygon)
                    \<lparr>mb_positions := replicate 12 0, mb_indices := [0, 1, 2],
                     mb_groups := [\<lparr>g_start = 0, g_count = 3, g_technique = 0,
                                    g_featureId = None, g_renderOrderOffset = None\<rparr>]\<rparr>)],
           logged := errors\<rparr> \<and>
      set errors \<subseteq> {''cannot triangulate geometry''} \<and>
      1 \<le> length errors \<and> length errors \<le> 2"
proof -
  have found: "findOrCreateMeshBuffers 0
      (if isExtrudedPolygonTechnique fillTechnique then ExtrudedPolygon else Polygon)
      (m_meshBuffers emptyEmitter) =
      (Some (newMeshBuffers Polygon), [(0, newMeshBuffers Polygon)], [])"
    by (simp add: findOrCreateMeshBuffers_def emptyEmitter_def isExtrudedPolygonTechnique_def
        fillTechnique_def Let_def)
  from applyPolygonTechnique_continues[OF found, of exampleHelpers examplePolygonHelpers
      exampleConfig "[[degenerateRing], [squareRing]]" None "[]" 4096]
  show ?thesis
    unfolding example_buffers example_failures example_groups
    by (simp add: emptyEmitter_def)
qed


text \<open>
  Ring groups: an outer ring takes the rings that follow with the opposite winding as its
  holes, and the next ring with its own winding starts a new group. The vertices of a hole
  follow those of the outer ring, its vertex offset is recorded, and its next-vertex indices
  count from the offset.
\<close>

lemma ringGroups_example:
  "ringGroups [squareRing, holeRing, holeRing, squareRing, degenerateRing] =
     [(squareRing, [holeRing, holeRing]), (squareRing, []), (degenerateRing, [])]"
  by code_simp

lemma groupVertices_example:
  "groupVertices 2 4096 True (squareRing, [holeRing]) =
     ([Finite 0, Finite 0, Finite (- 1), Finite 1,
       Finite 100, Finite 0, Finite 2, Finite 2,
       Finite 100, Finite (- 100), Finite 3, Finite 3,
       Finite 0, Finite (- 100), Finite (- 1), Finite 0,
       Finite 10, Finite (- 10), Finite 5, Finite 5,
       Finite 20, Finite (- 10), Finite 6, Finite 6,
       Finite 20, Finite (- 20), Finite 4, Finite 4],
      [4])"
  by code_simp

text \<open>A contour that ends in the middle of a vertex: the missing coordinate is \<^verbatim>\<open>NaN\<close> and
  the last next-vertex index is not a whole number.\<close>

lemma ringVertices_ragged:
  "ringVertices 2 4096 True 0 [0, 0, 10] =
     [Finite 0, Finite 0, Finite 1, Finite 1, Finite 10, NaN, Finite (1 / 2), Finite (1 / 2)]"
  by code_simp

end
